theory Spec2Isabelle
  imports Complex_Main "HOL-Library.Char_ord" "HOL-Library.List_Lexorder" "HOL-Library.Multiset"
begin

section \<open>Statistics engine: dashboard/services/metrics\_calculator.py\<close>

text \<open>
  Conventions of the embedding.
  \<^item> A pandas Timestamp is an \<open>int\<close>: nanoseconds since 1970-01-01 00:00:00; a
    Timedelta is an \<open>int\<close> number of nanoseconds.
  \<^item> A monetary value (a float64 of the source) is an exact rational: rounding,
    overflow to infinity and NaN are outside this model. The one infinity the source
    writes itself, \<^verbatim>\<open>float('inf')\<close> for the profit factor, is a constructor.
  \<^item> A trade set handed to the statistics engine is the list of its rows, in the
    frame's order, with the columns the engine reads.
\<close>

subsection \<open>Trade records\<close>

record trade =
  entry_time :: int
  exit_time :: int
  profit :: rat
  instrument :: string

subsection \<open>calculate\_max\_consecutive\<close>

text \<open>
  The loop body: the pair is (max\_consec, current\_consec).
\<close>

definition consec_step :: "int \<Rightarrow> nat \<times> nat \<Rightarrow> rat \<Rightarrow> nat \<times> nat" where
  "consec_step direction st p =
     (case st of (max_consec, current_consec) \<Rightarrow>
        if (direction = 1 \<and> p > 0) \<or> (direction = - 1 \<and> p < 0)
        then (max max_consec (current_consec + 1), current_consec + 1)
        else (max_consec, 0))"

definition calculate_max_consecutive :: "rat list \<Rightarrow> int \<Rightarrow> nat" where
  "calculate_max_consecutive profits direction =
     (if length profits = 0 then 0
      else fst (foldl (consec_step direction) (0, 0) profits))"

text \<open>
  The specification's wording of the streak counter, for comparison with the loop: the
  value of the running counter after each trade, starting from the counter \<open>c\<close>.
\<close>

fun running_counter :: "(rat \<Rightarrow> bool) \<Rightarrow> nat \<Rightarrow> rat list \<Rightarrow> nat list" where
  "running_counter matches c [] = []"
| "running_counter matches c (p # ps) =
     (if matches p then (c + 1) # running_counter matches (c + 1) ps
      else 0 # running_counter matches 0 ps)"

definition is_winner :: "rat \<Rightarrow> bool" where
  "is_winner p = (p > 0)"

definition is_loser :: "rat \<Rightarrow> bool" where
  "is_loser p = (p < 0)"

subsection \<open>Values of a report\<close>

text \<open>
  The engine returns Python dictionaries and frames whose values have several shapes. A
  dictionary is an association list in the order the source writes its keys; \<open>[]\<close> is
  the empty dictionary \<^verbatim>\<open>{}\<close>. A frame built from a list of row dictionaries is the
  list of its rows; \<open>[]\<close> is the empty frame \<^verbatim>\<open>pd.DataFrame()\<close>.
\<close>

datatype sval =
    Txt string
  | Cnt int
  | Amt rat
  | Dur int
  | Day int
  | Stamp int
  | Seq "sval list"
  | Dict "(sval \<times> sval) list"
  | Tbl "(string \<times> sval) list list"

type_synonym report = "(string \<times> sval) list"

datatype error =
    FileNotFoundError string
  | EmptyCsv string
  | CsvReadFailed string
  | MissingColumns "string list" "string list"
  | NoDataRows string
  | BadEntryTime
  | BadExitTime
  | BadStartDate string
  | BadEndDate string
  | KeyError string
  | TypeError
  | LengthMismatch

text \<open>The value \<^verbatim>\<open>float('inf')\<close> next to the finite floats.\<close>

datatype pfloat = Finite rat | Infinity

definition day_ns :: int where
  "day_ns = 86400000000000"

definition mean :: "rat list \<Rightarrow> rat" where
  "mean xs = sum_list xs / of_nat (length xs)"

subsection \<open>Equity curve and drawdown\<close>

text \<open>
  \<^verbatim>\<open>pd.Series(profits).cumsum()\<close>, \<^verbatim>\<open>equity_curve.expanding().max()\<close> and the
  elementwise difference of two series of one index.
\<close>

fun cumsum_from :: "rat \<Rightarrow> rat list \<Rightarrow> rat list" where
  "cumsum_from acc [] = []"
| "cumsum_from acc (x # xs) = (acc + x) # cumsum_from (acc + x) xs"

definition cumsum :: "rat list \<Rightarrow> rat list" where
  "cumsum xs = cumsum_from 0 xs"

fun expanding_max_from :: "rat \<Rightarrow> rat list \<Rightarrow> rat list" where
  "expanding_max_from m [] = []"
| "expanding_max_from m (x # xs) = max m x # expanding_max_from (max m x) xs"

definition expanding_max :: "rat list \<Rightarrow> rat list" where
  "expanding_max xs = (case xs of [] \<Rightarrow> [] | x # rest \<Rightarrow> x # expanding_max_from x rest)"

definition series_minus :: "rat list \<Rightarrow> rat list \<Rightarrow> rat list" where
  "series_minus xs ys = map (\<lambda>(x, y). x - y) (zip xs ys)"

subsection \<open>calculate\_recovery\_and\_flat\_periods\<close>

text \<open>
  The first loop: the state is (current\_peak, peak\_time, max\_time\_to\_recover), where
  the peak \<open>None\<close> is the initial \<^verbatim>\<open>-float('inf')\<close> and the peak time \<open>None\<close> is
  Python's \<^verbatim>\<open>None\<close>; a row is (Time, Equity).
\<close>

definition recover_step :: "rat option \<times> int option \<times> int \<Rightarrow> int \<times> rat \<Rightarrow> rat option \<times> int option \<times> int" where
  "recover_step st row =
     (case st of (current_peak, peak_time, max_time_to_recover) \<Rightarrow>
      case row of (time, equity) \<Rightarrow>
        if (case current_peak of None \<Rightarrow> True | Some pk \<Rightarrow> equity > pk)
        then (Some equity, Some time,
              (case peak_time of
                 None \<Rightarrow> max_time_to_recover
               | Some pt \<Rightarrow> if time - pt > max_time_to_recover then time - pt
                            else max_time_to_recover))
        else (current_peak, peak_time, max_time_to_recover))"

text \<open>
  The second loop: the state is (merged, curr\_start, curr\_end) and the element is
  (next\_start, next\_end).
\<close>

definition merge_step :: "(int \<times> int) list \<times> int \<times> int \<Rightarrow> int \<times> int \<Rightarrow> (int \<times> int) list \<times> int \<times> int" where
  "merge_step st nxt =
     (case st of (merged, curr_start, curr_end) \<Rightarrow>
      case nxt of (next_start, next_end) \<Rightarrow>
        if next_start < curr_end
        then (merged, curr_start, max curr_end next_end)
        else (merged @ [(curr_start, curr_end)], next_start, next_end))"

definition merge_intervals :: "(int \<times> int) list \<Rightarrow> (int \<times> int) list" where
  "merge_intervals intervals =
     (case intervals of
        [] \<Rightarrow> []
      | first # rest \<Rightarrow>
          (case foldl merge_step ([], fst first, snd first) rest of
             (merged, curr_start, curr_end) \<Rightarrow> merged @ [(curr_start, curr_end)]))"

definition trade_intervals :: "trade list \<Rightarrow> (int \<times> int) list" where
  "trade_intervals df = sort_key fst (map (\<lambda>row. (entry_time row, exit_time row)) df)"

definition flat_periods_of :: "(int \<times> int) list \<Rightarrow> int list" where
  "flat_periods_of merged =
     map (\<lambda>i. fst (merged ! (i + 1)) - snd (merged ! i)) [0 ..< length merged - 1]"

definition max_flat_period_of :: "int list \<Rightarrow> int" where
  "max_flat_period_of flat_periods = (if flat_periods \<noteq> [] then Max (set flat_periods) else 0)"

text \<open>
  The mean of the gaps is the exact quotient here; pandas rounds it to whole nanoseconds.
\<close>

definition avg_flat_period_of :: "int list \<Rightarrow> rat" where
  "avg_flat_period_of flat_periods =
     (if flat_periods \<noteq> [] then of_int (sum_list flat_periods) / of_nat (length flat_periods)
      else 0)"

definition pct_time_in_market_of :: "trade list \<Rightarrow> rat" where
  "pct_time_in_market_of df =
     (let unique_trading_days = length (remdups (map (\<lambda>row. entry_time row div day_ns) df));
          total_days =
            (if length df > 0
             then (let start_date = Min (set (map entry_time df));
                       end_date = Max (set (map exit_time df));
                       total_days = (end_date - start_date) div day_ns + 1
                   in if total_days < 1 then 1 else total_days)
             else 1)
      in if total_days > 0 then of_nat unique_trading_days / of_int total_days * 100 else 0)"

text \<open>
  The result is (max\_time\_to\_recover, max\_flat\_period, avg\_flat\_period,
  pct\_time\_in\_market). Building the frame of exit times and equity values raises when
  the two have different lengths.
\<close>

definition calculate_recovery_and_flat_periods :: "trade list \<Rightarrow> rat list \<Rightarrow> error + (int \<times> int \<times> rat \<times> rat)" where
  "calculate_recovery_and_flat_periods df equity_curve =
     (if length df = 0 \<or> length equity_curve = 0 then Inr (0, 0, 0, 0)
      else if length df \<noteq> length equity_curve then Inl LengthMismatch
      else
        (let eq_df = zip (map exit_time df) equity_curve;
             max_time_to_recover = snd (snd (foldl recover_step (None, None, 0) eq_df));
             merged = merge_intervals (trade_intervals df);
             flat_periods = flat_periods_of merged
         in Inr (max_time_to_recover, max_flat_period_of flat_periods,
                 avg_flat_period_of flat_periods, pct_time_in_market_of df)))"

text \<open>
  The specification's wording of the merge, for comparison with the loop: over intervals
  sorted by start, the current interval is extended when the next one starts before or at
  its end. The second function is the same recursion with the loop's own test, a start
  strictly before the end.
\<close>

fun merge_sorted_spec :: "int \<times> int \<Rightarrow> (int \<times> int) list \<Rightarrow> (int \<times> int) list" where
  "merge_sorted_spec cur [] = [cur]"
| "merge_sorted_spec cur (nxt # rest) =
     (if fst nxt \<le> snd cur then merge_sorted_spec (fst cur, max (snd cur) (snd nxt)) rest
      else cur # merge_sorted_spec nxt rest)"

definition busy_intervals_spec :: "(int \<times> int) list \<Rightarrow> (int \<times> int) list" where
  "busy_intervals_spec intervals =
     (case intervals of [] \<Rightarrow> [] | first # rest \<Rightarrow> merge_sorted_spec first rest)"

fun merge_sorted_strict :: "int \<times> int \<Rightarrow> (int \<times> int) list \<Rightarrow> (int \<times> int) list" where
  "merge_sorted_strict cur [] = [cur]"
| "merge_sorted_strict cur (nxt # rest) =
     (if fst nxt < snd cur then merge_sorted_strict (fst cur, max (snd cur) (snd nxt)) rest
      else cur # merge_sorted_strict nxt rest)"

definition busy_intervals_strict :: "(int \<times> int) list \<Rightarrow> (int \<times> int) list" where
  "busy_intervals_strict intervals =
     (case intervals of [] \<Rightarrow> [] | first # rest \<Rightarrow> merge_sorted_strict first rest)"

subsection \<open>calculate\_comprehensive\_stats\<close>

text \<open>
  The expression both reports use for the profit factor, and the value they store under
  the key \<^verbatim>\<open>'Profit Factor'\<close>.
\<close>

definition profit_factor_of :: "rat \<Rightarrow> rat \<Rightarrow> pfloat" where
  "profit_factor_of gross_profit gross_loss =
     (if gross_loss \<noteq> 0 then Finite \<bar>gross_profit / gross_loss\<bar>
      else if gross_profit > 0 then Infinity else Finite 0)"

definition reported_profit_factor :: "pfloat \<Rightarrow> rat" where
  "reported_profit_factor profit_factor =
     (if profit_factor \<noteq> Infinity then (case profit_factor of Finite x \<Rightarrow> x | Infinity \<Rightarrow> 0)
      else 0)"

text \<open>
  The report has the keys of the source in the source's order, but for two:
  \<^verbatim>\<open>'Avg Bars in Trade'\<close> (the mean of an optional column that a trade record of this
  model does not carry) and \<^verbatim>\<open>'Sharpe Ratio'\<close> (a floating-point square root).
  The frame of this model has parsed \<^verbatim>\<open>'Entry time'\<close> and \<^verbatim>\<open>'Exit time'\<close>
  columns, so the source's branch for a frame without them is not taken.
\<close>

definition calculate_comprehensive_stats :: "trade list \<Rightarrow> string \<Rightarrow> error + (report \<times> rat list \<times> rat list)" where
  "calculate_comprehensive_stats df instrument_name =
     (if length df = 0 then Inr ([], [], [])
      else
        (let profits = map profit df;
             total_profit = sum_list profits;
             winners = filter (\<lambda>p. p > 0) profits;
             losers = filter (\<lambda>p. p < 0) profits;
             gross_profit = (if length winners > 0 then sum_list winners else 0);
             gross_loss = (if length losers > 0 then sum_list losers else 0);
             num_trades = length df;
             num_winners = length winners;
             num_losers = length losers;
             win_rate = (if num_trades > 0 then of_nat num_winners / of_nat num_trades * 100 else 0);
             avg_trade = mean profits;
             avg_win = (if num_winners > 0 then mean winners else 0);
             avg_loss = (if num_losers > 0 then mean losers else 0);
             win_loss_ratio = (if avg_loss \<noteq> 0 then \<bar>avg_win / avg_loss\<bar> else 0);
             profit_factor = profit_factor_of gross_profit gross_loss;
             largest_win = Max (set profits);
             largest_loss = Min (set profits);
             equity_curve = cumsum profits;
             running_max = expanding_max equity_curve;
             drawdown = series_minus equity_curve running_max;
             max_drawdown = Min (set drawdown);
             max_consec_winners = calculate_max_consecutive profits 1;
             max_consec_losers = calculate_max_consecutive profits (- 1);
             expectancy = (win_rate / 100 * avg_win) - ((100 - win_rate) / 100 * \<bar>avg_loss\<bar>);
             holding_times = map (\<lambda>row. of_int (exit_time row - entry_time row) / 1000000000 / 60) df;
             avg_time_in_market = (if length holding_times > 0 then mean holding_times else 0)
         in case calculate_recovery_and_flat_periods df equity_curve of
              Inl e \<Rightarrow> Inl e
            | Inr (max_time_to_recover, max_flat_period, avg_flat_period, pct_time_in_market) \<Rightarrow>
                Inr ([(''Instrument'', Txt instrument_name),
                      (''Total Net Profit'', Amt total_profit),
                      (''Gross Profit'', Amt gross_profit),
                      (''Gross Loss'', Amt gross_loss),
                      (''Number of Trades'', Cnt (int num_trades)),
                      (''Number of Winning Trades'', Cnt (int num_winners)),
                      (''Number of Losing Trades'', Cnt (int num_losers)),
                      (''Percent Profitable'', Amt win_rate),
                      (''Avg Trade'', Amt avg_trade),
                      (''Avg Winning Trade'', Amt avg_win),
                      (''Avg Losing Trade'', Amt avg_loss),
                      (''Ratio Avg Win/Avg Loss'', Amt win_loss_ratio),
                      (''Profit Factor'', Amt (reported_profit_factor profit_factor)),
                      (''Largest Winning Trade'', Amt largest_win),
                      (''Largest Losing Trade'', Amt largest_loss),
                      (''Max Drawdown'', Amt max_drawdown),
                      (''Max Consecutive Winners'', Cnt (int max_consec_winners)),
                      (''Max Consecutive Losers'', Cnt (int max_consec_losers)),
                      (''Expectancy'', Amt expectancy),
                      (''Avg Time in Market (minutes)'', Amt avg_time_in_market),
                      (''Max Time to Recover'', Dur max_time_to_recover),
                      (''Max Flat Period'', Dur max_flat_period),
                      (''Avg Flat Period'', Amt avg_flat_period),
                      (''Time in Market %'', Amt pct_time_in_market)],
                     equity_curve, drawdown)))"

subsection \<open>calculate\_day\_of\_week\_stats\<close>

text \<open>
  \<^verbatim>\<open>dt.dayofweek\<close>: Monday is 0 and Sunday is 6; 1970-01-01 was a Thursday.
\<close>

definition dayofweek :: "int \<Rightarrow> nat" where
  "dayofweek t = nat ((t div day_ns + 3) mod 7)"

definition day_names :: "string list" where
  "day_names = [''Monday'', ''Tuesday'', ''Wednesday'', ''Thursday'', ''Friday'',
                ''Saturday'', ''Sunday'']"

text \<open>The dictionary appended to \<^verbatim>\<open>day_stats\<close> for a weekday that has trades.\<close>

definition day_row :: "nat \<Rightarrow> trade list \<Rightarrow> report" where
  "day_row day_num day_df =
     (let profits = map profit day_df;
          total_profit = sum_list profits;
          num_trades = length day_df;
          winners = filter (\<lambda>p. p > 0) profits;
          losers = filter (\<lambda>p. p < 0) profits;
          num_winners = length winners;
          num_losers = length losers;
          win_rate = (if num_trades > 0 then of_nat num_winners / of_nat num_trades * 100 else 0);
          avg_trade = mean profits;
          avg_win = (if num_winners > 0 then mean winners else 0);
          avg_loss = (if num_losers > 0 then mean losers else 0);
          gross_profit = (if num_winners > 0 then sum_list winners else 0);
          gross_loss = (if num_losers > 0 then sum_list losers else 0);
          profit_factor = profit_factor_of gross_profit gross_loss
      in [(''DayOfWeek'', Cnt (int day_num)),
          (''DayName'', Txt (day_names ! day_num)),
          (''Total Net Profit'', Amt total_profit),
          (''Number of Trades'', Cnt (int num_trades)),
          (''Number of Winning Trades'', Cnt (int num_winners)),
          (''Number of Losing Trades'', Cnt (int num_losers)),
          (''Percent Profitable'', Amt win_rate),
          (''Avg Trade'', Amt avg_trade),
          (''Avg Winning Trade'', Amt avg_win),
          (''Avg Losing Trade'', Amt avg_loss),
          (''Gross Profit'', Amt gross_profit),
          (''Gross Loss'', Amt gross_loss),
          (''Profit Factor'', Amt (reported_profit_factor profit_factor))])"

text \<open>The loop over \<^verbatim>\<open>range(7)\<close>: one step, with \<^verbatim>\<open>continue\<close> on an empty day.\<close>

definition day_df :: "trade list \<Rightarrow> nat \<Rightarrow> trade list" where
  "day_df df day_num = filter (\<lambda>row. dayofweek (entry_time row) = day_num) df"

definition day_stats_step :: "trade list \<Rightarrow> report list \<Rightarrow> nat \<Rightarrow> report list" where
  "day_stats_step df day_stats day_num =
     (if length (day_df df day_num) = 0 then day_stats
      else day_stats @ [day_row day_num (day_df df day_num)])"

definition day_of_week_key :: "report \<Rightarrow> int" where
  "day_of_week_key row = (case map_of row ''DayOfWeek'' of Some (Cnt n) \<Rightarrow> n | _ \<Rightarrow> 0)"

text \<open>
  Sorting a frame that has no column \<^verbatim>\<open>'DayOfWeek'\<close> (the frame of an empty
  \<^verbatim>\<open>day_stats\<close>) raises a KeyError.
\<close>

definition calculate_day_of_week_stats :: "trade list \<Rightarrow> error + report list" where
  "calculate_day_of_week_stats df =
     (if length df = 0 then Inr []
      else
        (let day_stats = foldl (day_stats_step df) [] [0 ..< 7]
         in if day_stats = [] then Inl (KeyError ''DayOfWeek'')
            else Inr (sort_key day_of_week_key day_stats)))"

subsection \<open>calculate\_daily\_instrument\_stats and calculate\_5min\_window\_stats\<close>

text \<open>
  The grouping keys: \<^verbatim>\<open>dt.date\<close> is the number of the day since 1970-01-01 and
  \<^verbatim>\<open>dt.floor('5min')\<close> is the timestamp of the preceding five-minute boundary.
\<close>

definition date_of :: "trade \<Rightarrow> int" where
  "date_of row = entry_time row div day_ns"

definition time_window_of :: "trade \<Rightarrow> int" where
  "time_window_of row = (entry_time row div 300000000000) * 300000000000"

text \<open>
  The pandas operations the two functions share: the keys of a \<^verbatim>\<open>groupby\<close> in
  ascending order, the rows of one group, \<^verbatim>\<open>unique()\<close> in order of first appearance,
  \<^verbatim>\<open>nunique()\<close>, \<^verbatim>\<open>value_counts().sort_index()\<close>, and Python's
  \<^verbatim>\<open>', '.join\<close> and \<^verbatim>\<open>split(', ')\<close>.
\<close>

definition group_keys :: "(trade \<Rightarrow> int) \<Rightarrow> trade list \<Rightarrow> int list" where
  "group_keys key df = sort (remdups (map key df))"

definition group_rows :: "(trade \<Rightarrow> int) \<Rightarrow> trade list \<Rightarrow> int \<Rightarrow> trade list" where
  "group_rows key df k = filter (\<lambda>row. key row = k) df"

definition unique :: "'a list \<Rightarrow> 'a list" where
  "unique xs = rev (remdups (rev xs))"

definition nunique :: "'a list \<Rightarrow> nat" where
  "nunique xs = length (unique xs)"

definition value_counts_sorted :: "nat list \<Rightarrow> (nat \<times> nat) list" where
  "value_counts_sorted xs = map (\<lambda>n. (n, length (filter (\<lambda>c. c = n) xs))) (sort (remdups xs))"

fun join_comma :: "string list \<Rightarrow> string" where
  "join_comma [] = []"
| "join_comma [x] = x"
| "join_comma (x # y # ys) = x @ '', '' @ join_comma (y # ys)"

fun split_comma :: "string \<Rightarrow> string \<Rightarrow> string list" where
  "split_comma acc [] = [rev acc]"
| "split_comma acc [c] = [rev (c # acc)]"
| "split_comma acc (c # d # cs) =
     (if c = CHR '','' \<and> d = CHR '' '' then rev acc # split_comma [] cs
      else split_comma (c # acc) (d # cs))"

text \<open>
  The frames both functions derive from the groups; \<open>stamp\<close> wraps a key as a date
  or as a timestamp.
  \<^item> \<open>group_counts\<close>: the key and the number of distinct instruments of each group;
  \<^item> \<open>group_profit\<close>: the key, the summed profit and that number;
  \<^item> \<open>profit_by_count\<close>: per number of instruments, the mean, sum and count of the
    group profits;
  \<^item> \<open>group_details\<close>: the key, the sorted instrument names joined by a comma, the
    summed profit, and the number of pieces the joined text splits into.
\<close>

definition group_counts :: "(trade \<Rightarrow> int) \<Rightarrow> trade list \<Rightarrow> (int \<times> nat) list" where
  "group_counts key df =
     map (\<lambda>k. (k, nunique (map instrument (group_rows key df k)))) (group_keys key df)"

definition group_profit :: "(trade \<Rightarrow> int) \<Rightarrow> trade list \<Rightarrow> (int \<times> rat \<times> nat) list" where
  "group_profit key df =
     map (\<lambda>k. (k, sum_list (map profit (group_rows key df k)),
               nunique (map instrument (group_rows key df k)))) (group_keys key df)"

definition profit_by_count :: "(int \<times> rat \<times> nat) list \<Rightarrow> (nat \<times> rat \<times> rat \<times> nat) list" where
  "profit_by_count profits =
     map (\<lambda>n. (let ps = map (\<lambda>(k, p, c). p) (filter (\<lambda>(k, p, c). c = n) profits)
               in (n, mean ps, sum_list ps, length ps)))
       (sort (remdups (map (\<lambda>(k, p, c). c) profits)))"

definition group_details :: "(trade \<Rightarrow> int) \<Rightarrow> trade list \<Rightarrow> (int \<times> string \<times> rat \<times> nat) list" where
  "group_details key df =
     map (\<lambda>k. (let names = join_comma (sort (unique (map instrument (group_rows key df k))))
               in (k, names, sum_list (map profit (group_rows key df k)),
                   length (split_comma [] names)))) (group_keys key df)"

definition names_of_group :: "(trade \<Rightarrow> int) \<Rightarrow> trade list \<Rightarrow> int \<Rightarrow> sval" where
  "names_of_group key df k = Seq (map Txt (sort (unique (map instrument (group_rows key df k)))))"

definition calculate_daily_instrument_stats :: "trade list \<Rightarrow> report \<times> report list" where
  "calculate_daily_instrument_stats df =
     (if length df = 0 then ([], [])
      else
        (let daily_instruments = group_counts date_of df;
             counts = map snd daily_instruments;
             max_instruments = Max (set counts);
             avg_instruments = mean (map of_nat counts);
             min_instruments = Min (set counts);
             max_instrument_days =
               map fst (filter (\<lambda>(d, n). n = max_instruments) daily_instruments);
             max_day_instruments =
               map (\<lambda>d. (Day d, names_of_group date_of df d)) max_instrument_days;
             instrument_count_distribution = value_counts_sorted counts;
             daily_profit = group_profit date_of df;
             avg_profit_by_instruments = profit_by_count daily_profit;
             daily_instrument_details = group_details date_of df
         in ([(''max_instruments'', Cnt (int max_instruments)),
              (''avg_instruments'', Amt avg_instruments),
              (''min_instruments'', Cnt (int min_instruments)),
              (''total_trading_days'', Cnt (int (length daily_instruments))),
              (''max_instrument_days'', Seq (map Day max_instrument_days)),
              (''max_day_instruments'', Dict max_day_instruments),
              (''distribution'',
                 Dict (map (\<lambda>(n, c). (Cnt (int n), Cnt (int c))) instrument_count_distribution)),
              (''daily_data'',
                 Tbl (map (\<lambda>(d, p, n). [(''Date'', Day d), (''Daily_Profit'', Amt p),
                                        (''Num_Instruments'', Cnt (int n))]) daily_profit)),
              (''profit_by_instruments'',
                 Tbl (map (\<lambda>(n, m, t, c). [(''Num_Instruments'', Cnt (int n)),
                                           (''Avg_Daily_Profit'', Amt m),
                                           (''Total_Profit'', Amt t),
                                           (''Num_Days'', Cnt (int c))]) avg_profit_by_instruments)),
              (''daily_details'',
                 Tbl (map (\<lambda>(d, names, p, n). [(''Date'', Day d), (''Instruments'', Txt names),
                                               (''Daily_Profit'', Amt p),
                                               (''Num_Instruments'', Cnt (int n))])
                        daily_instrument_details))],
             map (\<lambda>(d, n). [(''Date'', Day d), (''Num_Instruments'', Cnt (int n))])
               daily_instruments)))"

text \<open>
  In the five-minute variant the detail table is sorted by the number of instruments,
  descending, and cut to fifty rows. pandas does not fix the order of rows of equal
  count; this model keeps them in key order.
\<close>

definition calculate_5min_window_stats :: "trade list \<Rightarrow> report \<times> report list" where
  "calculate_5min_window_stats df =
     (if length df = 0 then ([], [])
      else
        (let window_instruments = group_counts time_window_of df;
             counts = map snd window_instruments;
             max_instruments = Max (set counts);
             avg_instruments = mean (map of_nat counts);
             min_instruments = Min (set counts);
             total_windows = length window_instruments;
             max_instrument_windows =
               map fst (filter (\<lambda>(w, n). n = max_instruments) window_instruments);
             max_window_instruments =
               map (\<lambda>w. (Stamp w, names_of_group time_window_of df w))
                 (take 10 max_instrument_windows);
             instrument_count_distribution = value_counts_sorted counts;
             window_profit = group_profit time_window_of df;
             avg_profit_by_instruments = profit_by_count window_profit;
             window_instrument_details =
               take 50 (sort_key (\<lambda>(w, names, p, n). - int n) (group_details time_window_of df))
         in ([(''max_instruments'', Cnt (int max_instruments)),
              (''avg_instruments'', Amt avg_instruments),
              (''min_instruments'', Cnt (int min_instruments)),
              (''total_windows'', Cnt (int total_windows)),
              (''max_instrument_windows'', Seq (map Stamp (take 10 max_instrument_windows))),
              (''max_window_instruments'', Dict max_window_instruments),
              (''distribution'',
                 Dict (map (\<lambda>(n, c). (Cnt (int n), Cnt (int c))) instrument_count_distribution)),
              (''window_data'',
                 Tbl (map (\<lambda>(w, p, n). [(''Time_Window'', Stamp w), (''Window_Profit'', Amt p),
                                        (''Num_Instruments'', Cnt (int n))]) window_profit)),
              (''profit_by_instruments'',
                 Tbl (map (\<lambda>(n, m, t, c). [(''Num_Instruments'', Cnt (int n)),
                                           (''Avg_Window_Profit'', Amt m),
                                           (''Total_Profit'', Amt t),
                                           (''Num_Windows'', Cnt (int c))]) avg_profit_by_instruments)),
              (''window_details'',
                 Tbl (map (\<lambda>(w, names, p, n). [(''Time_Window'', Stamp w),
                                               (''Instruments'', Txt names),
                                               (''Window_Profit'', Amt p),
                                               (''Num_Instruments'', Cnt (int n))])
                        window_instrument_details))],
             map (\<lambda>(w, n). [(''Time_Window'', Stamp w), (''Num_Instruments'', Cnt (int n))])
               window_instruments)))"


definition gross_profit_of :: "trade list \<Rightarrow> rat" where
  "gross_profit_of df = sum_list (filter (\<lambda>p. p > 0) (map profit df))"

definition gross_loss_of :: "trade list \<Rightarrow> rat" where
  "gross_loss_of df = sum_list (filter (\<lambda>p. p < 0) (map profit df))"

section \<open>Trade processing: dashboard/services/trade\_processor.py\<close>

text \<open>
  The loader and the combiner work on frames whose columns come and go, so a frame is
  modelled as pandas has it: the list of its column names and the list of its rows, a row
  giving the cell of each column. A cell is a text, a number, a timestamp, or null (NaN,
  NaT); the cells of a row outside the frame's columns are not part of the frame and are
  kept null. The row index is not modelled.
\<close>

datatype cell = Null | Str string | Num rat | Time int

type_synonym row = "string \<Rightarrow> cell"

record frame =
  columns :: "string list"
  rows :: "row list"

definition empty_frame :: frame where
  "empty_frame = \<lparr>columns = [], rows = []\<rparr>"

subsection \<open>The library and the file system\<close>

text \<open>
  The functions of pandas and of the standard library that the loader calls on texts
  are parameters of the model:
  \<^item> \<open>to_datetime\<close>: \<^verbatim>\<open>pd.to_datetime(..., format='%d/%m/%Y %H:%M:%S')\<close> on one text,
    \<open>None\<close> when the text does not match the format;
  \<^item> \<open>strptime\<close>: \<^verbatim>\<open>datetime.strptime(s, '%d/%m/%Y')\<close>, \<open>None\<close> when it raises;
  \<^item> \<open>strftime\<close>: \<^verbatim>\<open>d.strftime('%d/%m/%Y')\<close>;
  \<^item> \<open>to_numeric\<close>: \<^verbatim>\<open>pd.to_numeric(..., errors='coerce')\<close> on one text, \<open>None\<close>
    when the text is no number.
  A path of the file system holds what \<^verbatim>\<open>pd.read_csv\<close> makes of the file.
\<close>

record pylib =
  to_datetime :: "string \<Rightarrow> int option"
  strptime :: "string \<Rightarrow> int option"
  strftime :: "int \<Rightarrow> string"
  to_numeric :: "string \<Rightarrow> rat option"

datatype csv = EmptyData | Unreadable | Table frame

type_synonym filesystem = "string \<Rightarrow> csv option"

text \<open>A date argument: a text \<^verbatim>\<open>'dd/mm/yyyy'\<close> or a datetime object.\<close>

datatype date_arg = DateStr string | DateTime int

subsection \<open>load\_and\_filter\_trades\<close>

text \<open>
  Parsing one cell of a time column: a text is parsed or makes the call raise, a null
  stays null (NaT), a number does not match the format.
\<close>

definition parse_time_cell :: "pylib \<Rightarrow> cell \<Rightarrow> cell option" where
  "parse_time_cell lib c =
     (case c of
        Str s \<Rightarrow> (case to_datetime lib s of None \<Rightarrow> None | Some t \<Rightarrow> Some (Time t))
      | Null \<Rightarrow> Some Null
      | Time t \<Rightarrow> Some (Time t)
      | Num x \<Rightarrow> None)"

fun parse_time_column :: "pylib \<Rightarrow> string \<Rightarrow> row list \<Rightarrow> row list option" where
  "parse_time_column lib col [] = Some []"
| "parse_time_column lib col (r # rs) =
     (case parse_time_cell lib (r col) of
        None \<Rightarrow> None
      | Some c \<Rightarrow>
          (case parse_time_column lib col rs of
             None \<Rightarrow> None
           | Some rs' \<Rightarrow> Some (r(col := c) # rs')))"

definition resolve_start :: "pylib \<Rightarrow> date_arg \<Rightarrow> int option" where
  "resolve_start lib start_date =
     (case start_date of DateStr s \<Rightarrow> strptime lib s | DateTime t \<Rightarrow> Some t)"

definition resolve_end :: "pylib \<Rightarrow> date_arg \<Rightarrow> int option" where
  "resolve_end lib end_date =
     (case end_date of
        DateStr s \<Rightarrow> (case strptime lib s of None \<Rightarrow> None | Some t \<Rightarrow> Some (t + day_ns))
      | DateTime t \<Rightarrow> Some (t + day_ns))"

text \<open>
  The mask \<^verbatim>\<open>(df['Entry time'] >= start) & (df['Entry time'] < end)\<close> on one cell: a
  comparison with NaT is false.
\<close>

definition in_range :: "int \<Rightarrow> int \<Rightarrow> cell \<Rightarrow> bool" where
  "in_range start finish c = (case c of Time t \<Rightarrow> start \<le> t \<and> t < finish | _ \<Rightarrow> False)"

definition monetary_columns_cleaned :: "string list" where
  "monetary_columns_cleaned =
     [''Profit'', ''MAE'', ''MFE'', ''ETD'', ''Commission'',
      ''Clearing Fee'', ''Exchange Fee'', ''IP Fee'', ''NFA Fee'', ''Cum. net profit'']"

text \<open>
  A column has dtype \<^verbatim>\<open>object\<close> when it holds a text; a mask keeps the dtype, so it
  is read off the rows before the filter. Cleaning removes the dollar signs and the
  commas of a text and converts it; under \<^verbatim>\<open>.str\<close> a cell that is no text is null.
\<close>

definition is_text :: "cell \<Rightarrow> bool" where
  "is_text c = (case c of Str s \<Rightarrow> True | _ \<Rightarrow> False)"

definition dtype_object :: "string \<Rightarrow> row list \<Rightarrow> bool" where
  "dtype_object col rs = list_ex (\<lambda>r. is_text (r col)) rs"

definition clean_cell :: "pylib \<Rightarrow> cell \<Rightarrow> cell" where
  "clean_cell lib c =
     (case c of
        Str s \<Rightarrow>
          (case to_numeric lib (filter (\<lambda>ch. ch \<noteq> CHR '','') (filter (\<lambda>ch. ch \<noteq> CHR ''$'') s)) of
             None \<Rightarrow> Null
           | Some x \<Rightarrow> Num x)
      | _ \<Rightarrow> Null)"

definition clean_step :: "pylib \<Rightarrow> string list \<Rightarrow> row list \<Rightarrow> row list \<Rightarrow> string \<Rightarrow> row list" where
  "clean_step lib cols all_rows rs col =
     (if col \<in> set cols \<and> dtype_object col all_rows
      then map (\<lambda>r. r(col := clean_cell lib (r col))) rs
      else rs)"

text \<open>
  The key of \<^verbatim>\<open>sort_values('Entry time')\<close>. Every row that is sorted holds a
  timestamp there (a null does not pass the mask). pandas does not fix the order of rows
  of equal key; the model's sort keeps them in their order.
\<close>

definition entry_key :: "row \<Rightarrow> int" where
  "entry_key r = (case r ''Entry time'' of Time t \<Rightarrow> t | _ \<Rightarrow> 0)"

definition load_and_filter_trades :: "pylib \<Rightarrow> filesystem \<Rightarrow> string \<Rightarrow> date_arg \<Rightarrow> date_arg \<Rightarrow> error + frame" where
  "load_and_filter_trades lib fs trade_file start_date end_date =
     (case fs trade_file of
        None \<Rightarrow> Inl (FileNotFoundError trade_file)
      | Some EmptyData \<Rightarrow> Inl (EmptyCsv trade_file)
      | Some Unreadable \<Rightarrow> Inl (CsvReadFailed trade_file)
      | Some (Table df) \<Rightarrow>
          (let missing_columns =
                 filter (\<lambda>col. col \<notin> set (columns df)) [''Entry time'', ''Exit time'']
           in if missing_columns \<noteq> [] then Inl (MissingColumns missing_columns (columns df))
              else if length (rows df) = 0 then Inl (NoDataRows trade_file)
              else
                (case parse_time_column lib ''Entry time'' (rows df) of
                   None \<Rightarrow> Inl BadEntryTime
                 | Some rows1 \<Rightarrow>
                (case parse_time_column lib ''Exit time'' rows1 of
                   None \<Rightarrow> Inl BadExitTime
                 | Some rows2 \<Rightarrow>
                (case resolve_start lib start_date of
                   None \<Rightarrow> Inl (BadStartDate (case start_date of DateStr s \<Rightarrow> s | _ \<Rightarrow> []))
                 | Some start \<Rightarrow>
                (case resolve_end lib end_date of
                   None \<Rightarrow> Inl (BadEndDate (case end_date of DateStr s \<Rightarrow> s | _ \<Rightarrow> []))
                 | Some finish \<Rightarrow>
                     (let df_filtered = filter (\<lambda>r. in_range start finish (r ''Entry time'')) rows2;
                          cleaned = foldl (clean_step lib (columns df) rows2) df_filtered
                                      monetary_columns_cleaned
                      in Inr \<lparr>columns = columns df,
                              rows = sort_key entry_key cleaned\<rparr>)))))))"

subsection \<open>filter\_trades\_by\_direction\<close>

definition filter_trades_by_direction :: "frame \<Rightarrow> string \<Rightarrow> frame" where
  "filter_trades_by_direction df direction =
     (if direction = ''All'' \<or> ''Market pos.'' \<notin> set (columns df) then df
      else if direction = ''Long Only''
        then df\<lparr>rows := filter (\<lambda>r. r ''Market pos.'' = Str ''Long'') (rows df)\<rparr>
      else if direction = ''Short Only''
        then df\<lparr>rows := filter (\<lambda>r. r ''Market pos.'' = Str ''Short'') (rows df)\<rparr>
      else df)"

subsection \<open>apply\_contract\_multiplier\<close>

definition monetary_columns :: "string list" where
  "monetary_columns =
     [''Profit'', ''MAE'', ''MFE'', ''ETD'', ''Commission'',
      ''Clearing Fee'', ''Exchange Fee'', ''IP Fee'', ''NFA Fee'']"

text \<open>
  The product of one cell and the multiplier: a number is multiplied, a null stays null,
  a text is repeated as Python repeats it, and a timestamp raises a TypeError.
\<close>

definition scale_cell :: "int \<Rightarrow> cell \<Rightarrow> error + cell" where
  "scale_cell multiplier c =
     (case c of
        Num x \<Rightarrow> Inr (Num (x * of_int multiplier))
      | Null \<Rightarrow> Inr Null
      | Str s \<Rightarrow> Inr (Str (concat (replicate (nat multiplier) s)))
      | Time t \<Rightarrow> Inl TypeError)"

fun scale_rows :: "int \<Rightarrow> string \<Rightarrow> row list \<Rightarrow> error + row list" where
  "scale_rows multiplier col [] = Inr []"
| "scale_rows multiplier col (r # rs) =
     (case scale_cell multiplier (r col) of
        Inl e \<Rightarrow> Inl e
      | Inr c \<Rightarrow>
          (case scale_rows multiplier col rs of
             Inl e \<Rightarrow> Inl e
           | Inr rs' \<Rightarrow> Inr (r(col := c) # rs')))"

fun scale_columns :: "int \<Rightarrow> string list \<Rightarrow> frame \<Rightarrow> error + frame" where
  "scale_columns multiplier [] df = Inr df"
| "scale_columns multiplier (col # cols) df =
     (if col \<in> set (columns df)
      then (case scale_rows multiplier col (rows df) of
              Inl e \<Rightarrow> Inl e
            | Inr rs \<Rightarrow> scale_columns multiplier cols (df\<lparr>rows := rs\<rparr>))
      else scale_columns multiplier cols df)"

definition apply_contract_multiplier :: "frame \<Rightarrow> int \<Rightarrow> error + frame" where
  "apply_contract_multiplier df multiplier =
     (if multiplier = 1 \<or> length (rows df) = 0 then Inr df
      else scale_columns multiplier monetary_columns df)"

text \<open>
  What the claim about scaling speaks of: a numeric cell (a number or a null) and its
  product with the multiplier.
\<close>

definition numeric :: "cell \<Rightarrow> bool" where
  "numeric c = (case c of Num x \<Rightarrow> True | Null \<Rightarrow> True | _ \<Rightarrow> False)"

definition scaled_cell :: "int \<Rightarrow> cell \<Rightarrow> cell" where
  "scaled_cell multiplier c = (case c of Num x \<Rightarrow> Num (x * of_int multiplier) | _ \<Rightarrow> c)"

text \<open>
  The cleaning of the loader seen from one row: the columns of the cleaning list, in
  order, each cleaned when the frame has it with dtype \<^verbatim>\<open>object\<close>.
\<close>

definition clean_row_step :: "pylib \<Rightarrow> string list \<Rightarrow> row list \<Rightarrow> row \<Rightarrow> string \<Rightarrow> row" where
  "clean_row_step lib cols all_rows r col =
     (if col \<in> set cols \<and> dtype_object col all_rows then r(col := clean_cell lib (r col)) else r)"

definition clean_row :: "pylib \<Rightarrow> string list \<Rightarrow> row list \<Rightarrow> row \<Rightarrow> row" where
  "clean_row lib cols all_rows r = foldl (clean_row_step lib cols all_rows) r monetary_columns_cleaned"

subsection \<open>load\_and\_process\_trades\<close>

text \<open>
  The arguments: the instruments are an ordered dictionary from a name to the dictionary
  of its files; the selection is a list of names or a dictionary from names to booleans;
  the filters and the contract counts are dictionaries read with \<^verbatim>\<open>.get\<close>.
\<close>

type_synonym files = "(string \<times> string) list"

datatype selection = SelectedList "string list" | SelectedDict "(string \<times> bool) list"

record instrument_data =
  data_trades :: frame
  data_files :: files
  data_contracts :: int

definition selected_list_of :: "selection \<Rightarrow> string list" where
  "selected_list_of selected_instruments =
     (case selected_instruments of
        SelectedDict d \<Rightarrow> map fst (filter snd d)
      | SelectedList l \<Rightarrow> l)"

definition date_text :: "pylib \<Rightarrow> date_arg \<Rightarrow> string" where
  "date_text lib d = (case d of DateTime t \<Rightarrow> strftime lib t | DateStr s \<Rightarrow> s)"

text \<open>
  \<^verbatim>\<open>df[col] = value\<close> on a frame, \<^verbatim>\<open>d[key] = value\<close> on a dictionary that keeps
  its insertion order, and \<^verbatim>\<open>pd.concat(frames, ignore_index=True)\<close>: the columns of
  all frames in order of first appearance, a cell of a column its frame lacks being null.
\<close>

definition set_column :: "string \<Rightarrow> cell \<Rightarrow> frame \<Rightarrow> frame" where
  "set_column col v df =
     \<lparr>columns = (if col \<in> set (columns df) then columns df else columns df @ [col]),
      rows = map (\<lambda>r. r(col := v)) (rows df)\<rparr>"

definition dict_set :: "string \<Rightarrow> 'v \<Rightarrow> (string \<times> 'v) list \<Rightarrow> (string \<times> 'v) list" where
  "dict_set k v d =
     (if k \<in> set (map fst d) then map (\<lambda>(k', v'). if k' = k then (k', v) else (k', v')) d
      else d @ [(k, v)])"

definition concat_frames :: "frame list \<Rightarrow> frame" where
  "concat_frames frames =
     \<lparr>columns = unique (concat (map columns frames)),
      rows = concat (map (\<lambda>f. map (\<lambda>r c. if c \<in> set (columns f) then r c else Null) (rows f))
                      frames)\<rparr>"

text \<open>
  The statements of the \<^verbatim>\<open>try\<close> block up to the test of the frame's length: the
  result is the frame and the contract count, or the exception that the block raised.
\<close>

definition process_instrument :: "pylib \<Rightarrow> filesystem \<Rightarrow> (string \<Rightarrow> string option) \<Rightarrow> (string \<Rightarrow> int option) \<Rightarrow> string \<Rightarrow> string \<Rightarrow> string \<Rightarrow> files \<Rightarrow> error + (frame \<times> int)" where
  "process_instrument lib fs instrument_filters instrument_contracts start_str end_str name fls =
     (case map_of fls ''trades'' of
        None \<Rightarrow> Inl (KeyError ''trades'')
      | Some path \<Rightarrow>
          (case load_and_filter_trades lib fs path (DateStr start_str) (DateStr end_str) of
             Inl e \<Rightarrow> Inl e
           | Inr df \<Rightarrow>
               (let filter_option = (case instrument_filters name of None \<Rightarrow> ''All'' | Some f \<Rightarrow> f);
                    df1 = filter_trades_by_direction df filter_option;
                    contracts = (case instrument_contracts name of None \<Rightarrow> 1 | Some n \<Rightarrow> n)
                in case apply_contract_multiplier df1 contracts of
                     Inl e \<Rightarrow> Inl e
                   | Inr df2 \<Rightarrow> Inr (df2, contracts))))"

text \<open>
  One turn of the loop over the instruments; the state is (all\_trades,
  instruments\_data). An exception of the block leaves the state as it was.
\<close>

definition combine_step :: "pylib \<Rightarrow> filesystem \<Rightarrow> string list \<Rightarrow> (string \<Rightarrow> string option) \<Rightarrow> (string \<Rightarrow> int option) \<Rightarrow> string \<Rightarrow> string \<Rightarrow> frame list \<times> (string \<times> instrument_data) list \<Rightarrow> string \<times> files \<Rightarrow> frame list \<times> (string \<times> instrument_data) list" where
  "combine_step lib fs selected_list instrument_filters instrument_contracts start_str end_str st item =
     (case st of (all_trades, instruments_data) \<Rightarrow>
      case item of (name, fls) \<Rightarrow>
        if name \<in> set selected_list
        then (case process_instrument lib fs instrument_filters instrument_contracts
                     start_str end_str name fls of
                Inl e \<Rightarrow> (all_trades, instruments_data)
              | Inr (df, contracts) \<Rightarrow>
                  if length (rows df) > 0
                  then (let df' = set_column ''Contracts'' (Num (of_int contracts))
                                    (set_column ''Instrument'' (Str name) df)
                        in (all_trades @ [df'],
                            dict_set name \<lparr>data_trades = df', data_files = fls,
                                           data_contracts = contracts\<rparr> instruments_data))
                  else (all_trades, instruments_data))
        else (all_trades, instruments_data))"

definition load_and_process_trades :: "pylib \<Rightarrow> filesystem \<Rightarrow> (string \<times> files) list \<Rightarrow> selection \<Rightarrow> (string \<Rightarrow> string option) \<Rightarrow> (string \<Rightarrow> int option) \<Rightarrow> date_arg \<Rightarrow> date_arg \<Rightarrow> (string \<times> instrument_data) list \<times> frame" where
  "load_and_process_trades lib fs instruments selected_instruments instrument_filters
       instrument_contracts start_date end_date =
     (let start_str = date_text lib start_date;
          end_str = date_text lib end_date;
          selected_list = selected_list_of selected_instruments
      in case foldl (combine_step lib fs selected_list instrument_filters instrument_contracts
                       start_str end_str) ([], []) instruments of
           (all_trades, instruments_data) \<Rightarrow>
             if length all_trades = 0 then ([], empty_frame)
             else (let combined_df = concat_frames all_trades
                   in (instruments_data,
                       combined_df\<lparr>rows := sort_key entry_key (rows combined_df)\<rparr>)))"

subsection \<open>A small file system for the examples\<close>

text \<open>
  One trades file of three rows, entered on 2 January 2024 at 15:00, on 3 January 2024 at
  00:00 and on 2 January 2024 at 09:30, and a library that parses the texts this file and
  the examples use. Timestamps are nanoseconds since 1970-01-01.
\<close>

definition example_lib :: pylib where
  "example_lib =
     \<lparr>to_datetime = (\<lambda>s.
        if s = ''02/01/2024 09:30:00'' then Some 1704187800000000000
        else if s = ''02/01/2024 15:00:00'' then Some 1704207600000000000
        else if s = ''03/01/2024 00:00:00'' then Some 1704240000000000000
        else None),
      strptime = (\<lambda>s.
        if s = ''02/01/2024'' then Some 1704153600000000000
        else if s = ''03/01/2024'' then Some 1704240000000000000
        else None),
      strftime = (\<lambda>t.
        if t = 1704153600000000000 then ''02/01/2024''
        else if t = 1704240000000000000 then ''03/01/2024''
        else ''01/01/1970''),
      to_numeric = (\<lambda>s.
        if s = ''1234.00'' then Some 1234
        else if s = ''-20.00'' then Some (- 20)
        else if s = ''55.50'' then Some (111 / 2)
        else None)\<rparr>"

definition example_rows :: "row list" where
  "example_rows =
     [(\<lambda>c. Null)(''Entry time'' := Str ''02/01/2024 15:00:00'',
                 ''Exit time'' := Str ''02/01/2024 15:00:00'',
                 ''Profit'' := Str ''$1,234.00'', ''Market pos.'' := Str ''Long''),
      (\<lambda>c. Null)(''Entry time'' := Str ''03/01/2024 00:00:00'',
                 ''Exit time'' := Str ''03/01/2024 00:00:00'',
                 ''Profit'' := Str ''$55.50'', ''Market pos.'' := Str ''Long''),
      (\<lambda>c. Null)(''Entry time'' := Str ''02/01/2024 09:30:00'',
                 ''Exit time'' := Str ''02/01/2024 15:00:00'',
                 ''Profit'' := Str ''-20.00'', ''Market pos.'' := Str ''Short'')]"

definition example_fs :: filesystem where
  "example_fs path =
     (if path = ''ES-trades.csv''
      then Some (Table \<lparr>columns = [''Entry time'', ''Exit time'', ''Profit'', ''Market pos.''],
                        rows = example_rows\<rparr>)
      else if path = ''CL-trades.csv'' then Some EmptyData
      else None)"

section \<open>Properties\<close>

subsection \<open>Consecutive streaks\<close>

lemma Max_set_max_Cons:
  fixes m :: "'a::linorder"
  shows "Max (set (max m k # xs)) = max m (Max (set (k # xs)))"
  by (cases "xs = []") (simp_all add: max.assoc)

lemma Max_set_Cons_zero:
  fixes m :: nat
  shows "Max (set (m # 0 # xs)) = Max (set (m # xs))"
  by (cases "xs = []") simp_all

lemma consec_loop_winners:
  "fst (foldl (consec_step 1) (m, c) ps) = Max (set (m # running_counter is_winner c ps))"
proof (induction ps arbitrary: m c)
  case Nil
  show ?case by simp
next
  case (Cons p ps)
  show ?case
  proof (cases "p > 0")
    case True
    then have "fst (foldl (consec_step 1) (m, c) (p # ps))
        = Max (set (max m (c + 1) # running_counter is_winner (c + 1) ps))"
      by (simp add: consec_step_def Cons.IH)
    also have "\<dots> = Max (set (m # running_counter is_winner c (p # ps)))"
      using True by (simp only: running_counter.simps is_winner_def if_True Max_set_max_Cons)
        (simp add: max.assoc)
    finally show ?thesis .
  next
    case False
    then have "fst (foldl (consec_step 1) (m, c) (p # ps))
        = Max (set (m # running_counter is_winner 0 ps))"
      by (simp add: consec_step_def Cons.IH)
    also have "\<dots> = Max (set (m # running_counter is_winner c (p # ps)))"
      using False by (simp only: running_counter.simps is_winner_def if_False Max_set_Cons_zero)
    finally show ?thesis .
  qed
qed

lemma consec_loop_losers:
  "fst (foldl (consec_step (- 1)) (m, c) ps) = Max (set (m # running_counter is_loser c ps))"
proof (induction ps arbitrary: m c)
  case Nil
  show ?case by simp
next
  case (Cons p ps)
  show ?case
  proof (cases "p < 0")
    case True
    then have "fst (foldl (consec_step (- 1)) (m, c) (p # ps))
        = Max (set (max m (c + 1) # running_counter is_loser (c + 1) ps))"
      by (simp add: consec_step_def Cons.IH)
    also have "\<dots> = Max (set (m # running_counter is_loser c (p # ps)))"
      using True by (simp only: running_counter.simps is_loser_def if_True Max_set_max_Cons)
        (simp add: max.assoc)
    finally show ?thesis .
  next
    case False
    then have "fst (foldl (consec_step (- 1)) (m, c) (p # ps))
        = Max (set (m # running_counter is_loser 0 ps))"
      by (simp add: consec_step_def Cons.IH)
    also have "\<dots> = Max (set (m # running_counter is_loser c (p # ps)))"
      using False by (simp only: running_counter.simps is_loser_def if_False Max_set_Cons_zero)
    finally show ?thesis .
  qed
qed

text \<open>
  Claim C3. The streak counter is one pass over the profits: the running counter goes up
  by one on a trade of the requested direction (profit above zero for winners, below zero
  for losers) and back to zero on any other trade, and the result is the largest value the
  counter takes (zero when it never rises). On the profits 5, -3, 2, 2, 2, -1 the longest
  winning streak is 3 and the longest losing streak is 1.
\<close>

theorem max_consecutive_is_longest_streak:
  "calculate_max_consecutive ps 1 = Max (set (0 # running_counter is_winner 0 ps))
   \<and> calculate_max_consecutive ps (- 1) = Max (set (0 # running_counter is_loser 0 ps))
   \<and> calculate_max_consecutive [5, - 3, 2, 2, 2, - 1] 1 = 3
   \<and> calculate_max_consecutive [5, - 3, 2, 2, 2, - 1] (- 1) = 1"
proof -
  have w: "calculate_max_consecutive ps 1 = Max (set (0 # running_counter is_winner 0 ps))"
    unfolding calculate_max_consecutive_def using consec_loop_winners [of 0 0 ps]
    by (cases ps) simp_all
  have l: "calculate_max_consecutive ps (- 1) = Max (set (0 # running_counter is_loser 0 ps))"
    unfolding calculate_max_consecutive_def using consec_loop_losers [of 0 0 ps]
    by (cases ps) simp_all
  have e1: "calculate_max_consecutive [5, - 3, 2, 2, 2, - 1] 1 = 3"
    by (simp add: calculate_max_consecutive_def consec_step_def)
  have e2: "calculate_max_consecutive [5, - 3, 2, 2, 2, - 1] (- 1) = 1"
    by (simp add: calculate_max_consecutive_def consec_step_def)
  from w l e1 e2 show ?thesis by simp
qed

theorem max_consecutive_is_longest_streak_witness:
  "calculate_max_consecutive [1, 1, - 1, 1] 1 = 2
   \<and> calculate_max_consecutive [1, 1, - 1, 1] (- 1) = 1"
  using max_consecutive_is_longest_streak [of "[1, 1, - 1, 1]"]
  by (simp add: is_winner_def is_loser_def)

subsection \<open>Busy intervals and flat periods\<close>

lemma merge_loop_strict:
  "(case foldl merge_step (acc, cs, ce) rest of (merged, s, e) \<Rightarrow> merged @ [(s, e)])
     = acc @ merge_sorted_strict (cs, ce) rest"
proof (induction rest arbitrary: acc cs ce)
  case Nil
  show ?case by simp
next
  case (Cons nxt rest)
  obtain ns ne where n: "nxt = (ns, ne)" by (cases nxt)
  show ?case
  proof (cases "ns < ce")
    case True
    then show ?thesis using Cons.IH [of acc cs "max ce ne"] by (simp add: n merge_step_def)
  next
    case False
    then show ?thesis using Cons.IH [of "acc @ [(cs, ce)]" ns ne] by (simp add: n merge_step_def)
  qed
qed

lemma merge_intervals_strict: "merge_intervals ivs = busy_intervals_strict ivs"
proof (cases ivs)
  case Nil
  then show ?thesis by (simp add: merge_intervals_def busy_intervals_strict_def)
next
  case (Cons first rest)
  obtain s e where f: "first = (s, e)" by (cases first)
  show ?thesis
    using merge_loop_strict [of "[]" s e rest]
    by (auto simp add: Cons f merge_intervals_def busy_intervals_strict_def split: prod.splits)
qed

lemma flat_periods_consecutive:
  "flat_periods_of m = map (\<lambda>(a, b). fst b - snd a) (zip m (tl m))"
  by (rule nth_equalityI) (simp_all add: flat_periods_of_def nth_tl)

lemma two_trade_intervals:
  assumes "entry_time t1 \<le> exit_time t1" and "entry_time t2 = exit_time t1 + 2 * day_ns"
    and "df = [t1, t2] \<or> df = [t2, t1]"
  shows "trade_intervals df = [(entry_time t1, exit_time t1), (entry_time t2, exit_time t2)]"
  using assms by (auto simp add: trade_intervals_def day_ns_def)

lemma two_trade_flat:
  assumes "entry_time t1 \<le> exit_time t1" and "entry_time t2 = exit_time t1 + 2 * day_ns"
    and "df = [t1, t2] \<or> df = [t2, t1]" and "length eq = 2"
  shows "\<exists>r a p. calculate_recovery_and_flat_periods df eq = Inr (r, 2 * day_ns, a, p)"
proof -
  have iv: "trade_intervals df = [(entry_time t1, exit_time t1), (entry_time t2, exit_time t2)]"
    using assms(1-3) by (rule two_trade_intervals)
  have "\<not> entry_time t2 < exit_time t1" using assms(2) by (simp add: day_ns_def)
  then have m: "merge_intervals (trade_intervals df)
      = [(entry_time t1, exit_time t1), (entry_time t2, exit_time t2)]"
    by (simp add: iv merge_intervals_def merge_step_def)
  have f: "flat_periods_of (merge_intervals (trade_intervals df)) = [2 * day_ns]"
    using assms(2) by (simp add: m flat_periods_of_def)
  have l: "length df = 2" using assms(3) by auto
  show ?thesis
    using l assms(4)
    by (simp add: calculate_recovery_and_flat_periods_def Let_def f max_flat_period_of_def)
qed

text \<open>
  Claim C1, as the specification words it, fails: an interval that starts exactly at the
  end of the current busy interval does not extend it. Three trades over 0 to 5, 5 to 10
  and 12 to 15 give three busy intervals, where merging on "before or at" gives two.
\<close>

theorem touching_intervals_are_not_merged:
  "merge_intervals (trade_intervals
      [\<lparr>entry_time = 0, exit_time = 5, profit = 1, instrument = ''A''\<rparr>,
       \<lparr>entry_time = 5, exit_time = 10, profit = 1, instrument = ''A''\<rparr>,
       \<lparr>entry_time = 12, exit_time = 15, profit = 1, instrument = ''A''\<rparr>])
     = [(0, 5), (5, 10), (12, 15)]
   \<and> merge_intervals (trade_intervals
      [\<lparr>entry_time = 0, exit_time = 5, profit = 1, instrument = ''A''\<rparr>,
       \<lparr>entry_time = 5, exit_time = 10, profit = 1, instrument = ''A''\<rparr>,
       \<lparr>entry_time = 12, exit_time = 15, profit = 1, instrument = ''A''\<rparr>])
     \<noteq> busy_intervals_spec (trade_intervals
      [\<lparr>entry_time = 0, exit_time = 5, profit = 1, instrument = ''A''\<rparr>,
       \<lparr>entry_time = 5, exit_time = 10, profit = 1, instrument = ''A''\<rparr>,
       \<lparr>entry_time = 12, exit_time = 15, profit = 1, instrument = ''A''\<rparr>])
   \<and> calculate_recovery_and_flat_periods
      [\<lparr>entry_time = 0, exit_time = 5, profit = 1, instrument = ''A''\<rparr>,
       \<lparr>entry_time = 5, exit_time = 10, profit = 1, instrument = ''A''\<rparr>,
       \<lparr>entry_time = 12, exit_time = 15, profit = 1, instrument = ''A''\<rparr>] [1, 2, 3]
     = Inr (5, 2, 1, 100)
   \<and> avg_flat_period_of (flat_periods_of (busy_intervals_spec (trade_intervals
      [\<lparr>entry_time = 0, exit_time = 5, profit = 1, instrument = ''A''\<rparr>,
       \<lparr>entry_time = 5, exit_time = 10, profit = 1, instrument = ''A''\<rparr>,
       \<lparr>entry_time = 12, exit_time = 15, profit = 1, instrument = ''A''\<rparr>]))) = 2"
  by (simp add: calculate_recovery_and_flat_periods_def Let_def trade_intervals_def
      merge_intervals_def merge_step_def busy_intervals_spec_def flat_periods_of_def
      max_flat_period_of_def avg_flat_period_of_def pct_time_in_market_of_def day_ns_def
      recover_step_def upt_rec)

text \<open>
  Claim C1, amended. The (entry, exit) intervals of a trade set are sorted by start and
  merged into busy intervals in one pass that extends the current interval's end when the
  next interval starts strictly before that end, and otherwise closes the current interval
  and starts a new one (so an interval starting exactly at the current end starts a new
  busy interval). The flat periods are the gaps between consecutive merged intervals. For
  two trades, in either order in the set, where the first trade exits no earlier than it
  enters and the second enters exactly two days after the first exits, the maximum flat
  period is exactly two days.
\<close>

theorem flat_periods_between_strictly_merged_intervals:
  "sorted (map fst (trade_intervals df0))
   \<and> mset (trade_intervals df0) = mset (map (\<lambda>row. (entry_time row, exit_time row)) df0)
   \<and> merge_intervals ivs = busy_intervals_strict ivs
   \<and> flat_periods_of m = map (\<lambda>(a, b). fst b - snd a) (zip m (tl m))
   \<and> (entry_time t1 \<le> exit_time t1 \<and> entry_time t2 = exit_time t1 + 2 * day_ns
        \<and> (df = [t1, t2] \<or> df = [t2, t1]) \<and> length eq = 2
      \<longrightarrow> (\<exists>r a p. calculate_recovery_and_flat_periods df eq = Inr (r, 2 * day_ns, a, p)))"
proof -
  have a: "sorted (map fst (trade_intervals df0))"
    by (simp add: trade_intervals_def)
  have b: "mset (trade_intervals df0) = mset (map (\<lambda>row. (entry_time row, exit_time row)) df0)"
    by (simp add: trade_intervals_def)
  show ?thesis
    using a b merge_intervals_strict flat_periods_consecutive two_trade_flat by blast
qed

theorem flat_periods_between_strictly_merged_intervals_witness:
  "calculate_recovery_and_flat_periods
      [\<lparr>entry_time = 0, exit_time = 86400000000000, profit = 1, instrument = ''A''\<rparr>,
       \<lparr>entry_time = 259200000000000, exit_time = 345600000000000, profit = 1,
        instrument = ''A''\<rparr>] [1, 2]
     = Inr (259200000000000, 172800000000000, 172800000000000, 40)"
  using flat_periods_between_strictly_merged_intervals
    [of "[]" "[]" "[]"
        "\<lparr>entry_time = 0, exit_time = 86400000000000, profit = 1, instrument = ''A''\<rparr>"
        "\<lparr>entry_time = 259200000000000, exit_time = 345600000000000, profit = 1,
          instrument = ''A''\<rparr>"
        "[\<lparr>entry_time = 0, exit_time = 86400000000000, profit = 1, instrument = ''A''\<rparr>,
          \<lparr>entry_time = 259200000000000, exit_time = 345600000000000, profit = 1,
           instrument = ''A''\<rparr>]"
        "[1, 2]"]
  by (simp add: calculate_recovery_and_flat_periods_def Let_def trade_intervals_def
      merge_intervals_def merge_step_def flat_periods_of_def
      max_flat_period_of_def avg_flat_period_of_def pct_time_in_market_of_def day_ns_def
      recover_step_def)

subsection \<open>Equity curve and drawdown\<close>


















subsection \<open>Profit factor\<close>



lemma reported_profit_factor_cases:
  "reported_profit_factor (profit_factor_of gp gl) = (if gl \<noteq> 0 then \<bar>gp / gl\<bar> else 0)"
  by (simp add: reported_profit_factor_def profit_factor_of_def)


subsection \<open>Day-of-week breakdown\<close>

lemma day_stats_loop:
  "foldl (day_stats_step df) acc ds
     = acc @ map (\<lambda>d. day_row d (day_df df d)) (filter (\<lambda>d. day_df df d \<noteq> []) ds)"
  by (induction ds arbitrary: acc) (simp_all add: day_stats_step_def)

lemma day_row_key: "day_of_week_key (day_row d xs) = int d"
  by (simp add: day_of_week_key_def day_row_def Let_def)

lemma dayofweek_less: "dayofweek t < 7"
  by (simp add: dayofweek_def nat_less_iff)

lemma day_stats_nonempty:
  assumes "df \<noteq> []"
  shows "filter (\<lambda>d. day_df df d \<noteq> []) [0 ..< 7] \<noteq> []"
proof -
  obtain t rest where "df = t # rest" using assms by (cases df) auto
  then have "t \<in> set (day_df df (dayofweek (entry_time t)))"
    by (simp add: day_df_def)
  then have "day_df df (dayofweek (entry_time t)) \<noteq> []" by auto
  moreover have "dayofweek (entry_time t) \<in> set [0 ..< 7]"
    using dayofweek_less by simp
  ultimately show ?thesis by (auto simp add: filter_empty_conv simp del: upt_Suc)
qed

lemma day_of_week_rows:
  "calculate_day_of_week_stats df
     = Inr (map (\<lambda>d. day_row d (day_df df d)) (filter (\<lambda>d. day_df df d \<noteq> []) [0 ..< 7]))"
proof (cases "df = []")
  case True
  then show ?thesis by (simp add: calculate_day_of_week_stats_def day_df_def)
next
  case False
  let ?ds = "filter (\<lambda>d. day_df df d \<noteq> []) [0 ..< 7]"
  let ?rows = "map (\<lambda>d. day_row d (day_df df d)) ?ds"
  have loop: "foldl (day_stats_step df) [] [0 ..< 7] = ?rows"
    by (simp only: day_stats_loop append_Nil)
  have ne: "?rows \<noteq> []" using day_stats_nonempty [OF False] by simp
  have keys: "map day_of_week_key ?rows = map int ?ds"
    by (simp add: day_row_key comp_def)
  have "sorted ?ds"
    by (intro sorted_wrt_filter sorted_upt)
  then have "sorted (map int ?ds)"
    by (simp add: sorted_map del: upt_Suc)
  then have "sorted (map day_of_week_key ?rows)"
    by (simp only: keys)
  then have "sort_key day_of_week_key ?rows = ?rows"
    by (rule sort_key_id_if_sorted)
  then show ?thesis
    using False ne loop by (simp add: calculate_day_of_week_stats_def Let_def del: upt_Suc)
qed

lemma day_df_nonempty_iff:
  "(day_df df d \<noteq> []) = (\<exists>t\<in>set df. dayofweek (entry_time t) = d)"
  by (auto simp add: day_df_def filter_empty_conv)

lemma day_row_entries:
  "map_of (day_row d xs) ''DayOfWeek'' = Some (Cnt (int d))
   \<and> map_of (day_row d xs) ''DayName'' = Some (Txt (day_names ! d))
   \<and> map_of (day_row d xs) ''Number of Trades'' = Some (Cnt (int (length xs)))
   \<and> map_of (day_row d xs) ''Gross Profit'' = Some (Amt (gross_profit_of xs))
   \<and> map_of (day_row d xs) ''Gross Loss'' = Some (Amt (gross_loss_of xs))
   \<and> map_of (day_row d xs) ''Profit Factor''
       = Some (Amt (reported_profit_factor (profit_factor_of (gross_profit_of xs) (gross_loss_of xs))))"
  by (simp add: day_row_def Let_def gross_profit_of_def gross_loss_of_def)





text \<open>
  Claim C9. The day-of-week breakdown has one row for each weekday on which at least one
  trade was entered and none for any other weekday; each row carries the number and name
  of its weekday and a positive number of trades; the rows are in the order Monday (0) to
  Sunday (6).
\<close>

theorem day_of_week_rows_for_traded_days_only:
  "\<exists>rows. calculate_day_of_week_stats df = Inr rows
     \<and> map day_of_week_key rows
         = map int (filter (\<lambda>d. \<exists>t\<in>set df. dayofweek (entry_time t) = d) [0 ..< 7])
     \<and> (\<forall>row\<in>set rows. \<exists>d<7. (\<exists>t\<in>set df. dayofweek (entry_time t) = d)
           \<and> map_of row ''DayOfWeek'' = Some (Cnt (int d))
           \<and> map_of row ''DayName'' = Some (Txt (day_names ! d))
           \<and> map_of row ''Number of Trades'' = Some (Cnt (int (length (day_df df d))))
           \<and> 0 < length (day_df df d))
     \<and> sorted (map day_of_week_key rows) \<and> distinct (map day_of_week_key rows)"
proof -
  let ?ds = "filter (\<lambda>d. day_df df d \<noteq> []) [0 ..< 7]"
  let ?rows = "map (\<lambda>d. day_row d (day_df df d)) ?ds"
  have r: "calculate_day_of_week_stats df = Inr ?rows" by (rule day_of_week_rows)
  have keys: "map day_of_week_key ?rows = map int ?ds"
    by (simp add: day_row_key comp_def)
  have ds: "?ds = filter (\<lambda>d. \<exists>t\<in>set df. dayofweek (entry_time t) = d) [0 ..< 7]"
    by (simp only: day_df_nonempty_iff)
  have "sorted ?ds" by (intro sorted_wrt_filter sorted_upt)
  then have so: "sorted (map day_of_week_key ?rows)"
    unfolding keys by (simp add: sorted_map del: upt_Suc)
  have di: "distinct (map day_of_week_key ?rows)"
    unfolding keys by (simp add: distinct_map inj_on_def del: upt_Suc)
  have rows: "\<exists>d<7. (\<exists>t\<in>set df. dayofweek (entry_time t) = d)
           \<and> map_of row ''DayOfWeek'' = Some (Cnt (int d))
           \<and> map_of row ''DayName'' = Some (Txt (day_names ! d))
           \<and> map_of row ''Number of Trades'' = Some (Cnt (int (length (day_df df d))))
           \<and> 0 < length (day_df df d)" if "row \<in> set ?rows" for row
  proof -
    from that obtain d where d: "d < 7" "day_df df d \<noteq> []" "row = day_row d (day_df df d)"
      by (auto simp del: upt_Suc)
    have "\<exists>t\<in>set df. dayofweek (entry_time t) = d"
      using d(2) by (simp only: day_df_nonempty_iff)
    then show ?thesis
      using d(1,2) day_row_entries [of d "day_df df d"] unfolding d(3) by blast
  qed
  show ?thesis using r keys ds so di rows by (metis (no_types, lifting))
qed


theorem day_of_week_rows_for_traded_days_only_witness:
  "\<exists>rows. calculate_day_of_week_stats
      [\<lparr>entry_time = 0, exit_time = 5, profit = 300, instrument = ''A''\<rparr>,
       \<lparr>entry_time = 345600000000000, exit_time = 345600000000010, profit = - 100,
        instrument = ''A''\<rparr>] = Inr rows
     \<and> map day_of_week_key rows = [0, 3]"
proof -
  let ?df = "[\<lparr>entry_time = 0, exit_time = 5, profit = 300, instrument = ''A''\<rparr>,
       \<lparr>entry_time = 345600000000000, exit_time = 345600000000010, profit = - 100,
        instrument = ''A''\<rparr>]"
  have "map int (filter (\<lambda>d. \<exists>t\<in>set ?df. dayofweek (entry_time t) = d) [0 ..< 7]) = [0, 3]"
    by (simp add: dayofweek_def day_ns_def upt_rec)
  then show ?thesis
    using day_of_week_rows_for_traded_days_only [of ?df] by metis
qed

subsection \<open>Empty input\<close>

text \<open>
  Claim C8. On the empty trade set the statistics engine returns the empty report with
  empty equity and drawdown series, and the day-of-week breakdown, the daily concurrency
  and the five-minute-window concurrency return their empty reports; none of them raises.
  The streak counter and the recovery and flat-period computation return zeros.
\<close>

theorem empty_trade_set_gives_empty_reports:
  "calculate_comprehensive_stats [] name = Inr ([], [], [])
   \<and> calculate_day_of_week_stats [] = Inr []
   \<and> calculate_daily_instrument_stats [] = ([], [])
   \<and> calculate_5min_window_stats [] = ([], [])
   \<and> calculate_recovery_and_flat_periods [] [] = Inr (0, 0, 0, 0)
   \<and> calculate_max_consecutive [] direction = 0"
  by (simp add: calculate_comprehensive_stats_def calculate_day_of_week_stats_def
      calculate_daily_instrument_stats_def calculate_5min_window_stats_def
      calculate_recovery_and_flat_periods_def calculate_max_consecutive_def)

theorem empty_trade_set_gives_empty_reports_witness:
  "calculate_comprehensive_stats [] ''ES'' = Inr ([], [], [])
   \<and> calculate_max_consecutive [] 1 = 0"
  using empty_trade_set_gives_empty_reports [of "''ES''" 1] by simp

subsection \<open>Contract multiplier\<close>


lemma numeric_scaled: "numeric c \<Longrightarrow> numeric (scaled_cell m c)"
  by (cases c) (simp_all add: numeric_def scaled_cell_def)







subsection \<open>Direction filter\<close>

text \<open>
  Claim C10. For a direction that is neither 'Long Only' nor 'Short Only' (so 'All' and
  every unrecognised text), and for any direction when the frame has no column
  'Market pos.', \<^verbatim>\<open>filter_trades_by_direction\<close> returns its input unchanged.
\<close>

theorem direction_filter_other_modes_return_input:
  "(direction \<noteq> ''Long Only'' \<and> direction \<noteq> ''Short Only'')
     \<or> ''Market pos.'' \<notin> set (columns df)
   \<longrightarrow> filter_trades_by_direction df direction = df"
  by (auto simp add: filter_trades_by_direction_def)

theorem direction_filter_other_modes_return_input_witness:
  "filter_trades_by_direction
      \<lparr>columns = [''Market pos.''], rows = [(\<lambda>c. Null)(''Market pos.'' := Str ''Short'')]\<rparr>
      ''Longs''
     = \<lparr>columns = [''Market pos.''], rows = [(\<lambda>c. Null)(''Market pos.'' := Str ''Short'')]\<rparr>
   \<and> filter_trades_by_direction
      \<lparr>columns = [''Profit''], rows = [(\<lambda>c. Null)(''Profit'' := Num 1)]\<rparr> ''Long Only''
     = \<lparr>columns = [''Profit''], rows = [(\<lambda>c. Null)(''Profit'' := Num 1)]\<rparr>
   \<and> rows (filter_trades_by_direction
      \<lparr>columns = [''Market pos.''], rows = [(\<lambda>c. Null)(''Market pos.'' := Str ''Short'')]\<rparr>
      ''Long Only'') = []"
proof -
  have a: "filter_trades_by_direction
      \<lparr>columns = [''Market pos.''], rows = [(\<lambda>c. Null)(''Market pos.'' := Str ''Short'')]\<rparr>
      ''Longs''
     = \<lparr>columns = [''Market pos.''], rows = [(\<lambda>c. Null)(''Market pos.'' := Str ''Short'')]\<rparr>"
    using direction_filter_other_modes_return_input
      [of "''Longs''" "\<lparr>columns = [''Market pos.''],
                        rows = [(\<lambda>c. Null)(''Market pos.'' := Str ''Short'')]\<rparr>"]
    by simp
  have b: "filter_trades_by_direction
      \<lparr>columns = [''Profit''], rows = [(\<lambda>c. Null)(''Profit'' := Num 1)]\<rparr> ''Long Only''
     = \<lparr>columns = [''Profit''], rows = [(\<lambda>c. Null)(''Profit'' := Num 1)]\<rparr>"
    using direction_filter_other_modes_return_input
      [of "''Long Only''" "\<lparr>columns = [''Profit''], rows = [(\<lambda>c. Null)(''Profit'' := Num 1)]\<rparr>"]
    by simp
  have c: "rows (filter_trades_by_direction
      \<lparr>columns = [''Market pos.''], rows = [(\<lambda>c. Null)(''Market pos.'' := Str ''Short'')]\<rparr>
      ''Long Only'') = []"
    by (simp add: filter_trades_by_direction_def)
  show ?thesis using a b c by blast
qed

subsection \<open>Loading and filtering\<close>

lemma parse_time_column_Some:
  "parse_time_column lib col rs = Some rs' \<Longrightarrow>
   length rs' = length rs
   \<and> (\<forall>i<length rs. parse_time_cell lib ((rs ! i) col) = Some ((rs' ! i) col)
          \<and> (\<forall>c. c \<noteq> col \<longrightarrow> (rs' ! i) c = (rs ! i) c))"
proof (induction rs arbitrary: rs')
  case Nil
  then show ?case by simp
next
  case (Cons r rs)
  from Cons.prems obtain c rest where c: "parse_time_cell lib (r col) = Some c"
    and rest: "parse_time_column lib col rs = Some rest" and rs': "rs' = r(col := c) # rest"
    by (auto split: option.splits)
  have ih: "length rest = length rs
   \<and> (\<forall>i<length rs. parse_time_cell lib ((rs ! i) col) = Some ((rest ! i) col)
          \<and> (\<forall>c. c \<noteq> col \<longrightarrow> (rest ! i) c = (rs ! i) c))"
    using Cons.IH [OF rest] .
  show ?case
  proof (intro conjI allI impI)
    show "length rs' = length (r # rs)" using ih rs' by simp
  next
    fix i assume "i < length (r # rs)"
    then show "parse_time_cell lib (((r # rs) ! i) col) = Some ((rs' ! i) col)"
      using ih c rs' by (cases i) simp_all
  next
    fix i c' assume "i < length (r # rs)" and "c' \<noteq> col"
    then show "(rs' ! i) c' = ((r # rs) ! i) c'"
      using ih rs' by (cases i) simp_all
  qed
qed

lemma clean_step_rows:
  "clean_step lib cols all_rows rs col = map (\<lambda>r. clean_row_step lib cols all_rows r col) rs"
proof (cases "col \<in> set cols \<and> dtype_object col all_rows")
  case True
  then show ?thesis by (simp add: clean_step_def clean_row_step_def)
next
  case False
  then have "clean_row_step lib cols all_rows r col = r" for r
    by (simp only: clean_row_step_def if_False)
  moreover have "clean_step lib cols all_rows rs col = rs"
    using False by (simp only: clean_step_def if_False)
  ultimately show ?thesis by simp
qed

lemma clean_row_fold:
  "clean_row lib cols all_rows
     = (\<lambda>r. foldl (clean_row_step lib cols all_rows) r monetary_columns_cleaned)"
  by (simp add: fun_eq_iff clean_row_def)

lemma clean_loop_rows:
  "foldl (clean_step lib cols all_rows) rs cs
     = map (\<lambda>r. foldl (clean_row_step lib cols all_rows) r cs) rs"
proof (induction cs arbitrary: rs)
  case Nil
  show ?case by simp
next
  case (Cons col cs)
  have "foldl (clean_step lib cols all_rows) rs (col # cs)
      = foldl (clean_step lib cols all_rows) (clean_step lib cols all_rows rs col) cs"
    by simp
  also have "\<dots> = map (\<lambda>r. foldl (clean_row_step lib cols all_rows) r cs)
                     (clean_step lib cols all_rows rs col)"
    by (rule Cons.IH)
  also have "\<dots> = map (\<lambda>r. foldl (clean_row_step lib cols all_rows) r (col # cs)) rs"
    by (simp only: clean_step_rows map_map comp_def foldl_Cons)
  finally show ?case .
qed

lemma clean_row_steps_other_column:
  "k \<notin> set cs \<Longrightarrow> foldl (clean_row_step lib cols all_rows) r cs k = r k"
  by (induction cs arbitrary: r) (auto simp add: clean_row_step_def)

lemma clean_row_entry_time: "clean_row lib cols all_rows r ''Entry time'' = r ''Entry time''"
  unfolding clean_row_def
  by (rule clean_row_steps_other_column) (simp add: monetary_columns_cleaned_def)

lemma in_range_Time: "in_range a b c \<Longrightarrow> \<exists>t. c = Time t \<and> a \<le> t \<and> t < b"
  by (cases c) (simp_all add: in_range_def)

lemma load_result:
  assumes "fs trade_file = Some (Table df)"
    and "''Entry time'' \<in> set (columns df)" and "''Exit time'' \<in> set (columns df)"
    and "rows df \<noteq> []"
    and "parse_time_column lib ''Entry time'' (rows df) = Some rows1"
    and "parse_time_column lib ''Exit time'' rows1 = Some rows2"
    and "resolve_start lib start_date = Some start"
    and "resolve_end lib end_date = Some finish"
  shows "load_and_filter_trades lib fs trade_file start_date end_date
     = Inr \<lparr>columns = columns df,
            rows = sort_key entry_key (map (clean_row lib (columns df) rows2)
                     (filter (\<lambda>r. in_range start finish (r ''Entry time'')) rows2))\<rparr>"
  using assms
  by (simp add: load_and_filter_trades_def Let_def clean_loop_rows clean_row_fold)

lemma load_Inr:
  assumes "load_and_filter_trades lib fs trade_file start_date end_date = Inr out"
  shows "\<exists>df rows1 rows2 start finish.
      fs trade_file = Some (Table df)
      \<and> ''Entry time'' \<in> set (columns df) \<and> ''Exit time'' \<in> set (columns df)
      \<and> rows df \<noteq> []
      \<and> parse_time_column lib ''Entry time'' (rows df) = Some rows1
      \<and> parse_time_column lib ''Exit time'' rows1 = Some rows2
      \<and> resolve_start lib start_date = Some start
      \<and> resolve_end lib end_date = Some finish"
  using assms
  by (auto simp add: load_and_filter_trades_def Let_def
      split: option.splits csv.splits if_splits)


lemma load_properties:
  assumes "load_and_filter_trades lib fs trade_file start_date end_date = Inr out"
  shows "\<exists>df rows1 rows2 start finish.
        fs trade_file = Some (Table df)
      \<and> parse_time_column lib ''Entry time'' (rows df) = Some rows1
      \<and> parse_time_column lib ''Exit time'' rows1 = Some rows2
      \<and> length rows2 = length (rows df)
      \<and> (\<forall>i<length (rows df).
            parse_time_cell lib ((rows df ! i) ''Entry time'') = Some ((rows2 ! i) ''Entry time''))
      \<and> resolve_start lib start_date = Some start
      \<and> resolve_end lib end_date = Some finish
      \<and> columns out = columns df
      \<and> mset (rows out)
           = image_mset (clean_row lib (columns df) rows2)
               (filter_mset (\<lambda>r. in_range start finish (r ''Entry time'')) (mset rows2))
      \<and> (\<forall>r. clean_row lib (columns df) rows2 r ''Entry time'' = r ''Entry time'')
      \<and> (\<forall>r\<in>set (rows out). \<exists>t. r ''Entry time'' = Time t \<and> entry_key r = t
                                    \<and> start \<le> t \<and> t < finish)
      \<and> sorted (map entry_key (rows out))"
proof -
  from load_Inr [OF assms] obtain df rows1 rows2 start finish where
    f: "fs trade_file = Some (Table df)"
    and c1: "''Entry time'' \<in> set (columns df)" and c2: "''Exit time'' \<in> set (columns df)"
    and ne: "rows df \<noteq> []"
    and p1: "parse_time_column lib ''Entry time'' (rows df) = Some rows1"
    and p2: "parse_time_column lib ''Exit time'' rows1 = Some rows2"
    and s: "resolve_start lib start_date = Some start"
    and e: "resolve_end lib end_date = Some finish"
    by blast
  let ?kept = "filter (\<lambda>r. in_range start finish (r ''Entry time'')) rows2"
  let ?clean = "clean_row lib (columns df) rows2"
  have out: "out = \<lparr>columns = columns df, rows = sort_key entry_key (map ?clean ?kept)\<rparr>"
    using load_result [of fs trade_file df lib rows1 rows2 start_date start end_date finish,
        OF f c1 c2 ne p1 p2 s e] assms by simp
  note q1 = parse_time_column_Some [OF p1]
  note q2 = parse_time_column_Some [OF p2]
  have len: "length rows2 = length (rows df)" using q1 q2 by simp
  have cells: "parse_time_cell lib ((rows df ! i) ''Entry time'') = Some ((rows2 ! i) ''Entry time'')"
    if "i < length (rows df)" for i
  proof -
    have "parse_time_cell lib ((rows df ! i) ''Entry time'') = Some ((rows1 ! i) ''Entry time'')"
      using q1 that by blast
    moreover have "(rows2 ! i) ''Entry time'' = (rows1 ! i) ''Entry time''"
      using q1 q2 that by simp
    ultimately show ?thesis by simp
  qed
  have ms: "mset (rows out) = image_mset ?clean
               (filter_mset (\<lambda>r. in_range start finish (r ''Entry time'')) (mset rows2))"
    by (simp add: out)
  have rng: "\<exists>t. r ''Entry time'' = Time t \<and> entry_key r = t \<and> start \<le> t \<and> t < finish"
    if "r \<in> set (rows out)" for r
  proof -
    from that obtain r0 where r0: "r0 \<in> set rows2" "in_range start finish (r0 ''Entry time'')"
      and r: "r = ?clean r0"
      by (auto simp add: out)
    have "r ''Entry time'' = r0 ''Entry time''" unfolding r by (rule clean_row_entry_time)
    then show ?thesis using in_range_Time [OF r0(2)] by (auto simp add: entry_key_def)
  qed
  have so: "sorted (map entry_key (rows out))" by (simp add: out)
  have co: "columns out = columns df" by (simp add: out)
  show ?thesis
    using f p1 p2 len cells s e co ms clean_row_entry_time rng so by blast
qed

lemmas example_defs = example_lib_def example_fs_def example_rows_def
lemmas loader_defs = load_and_filter_trades_def Let_def parse_time_cell_def resolve_start_def
  resolve_end_def in_range_def day_ns_def clean_step_def dtype_object_def is_text_def
  clean_cell_def monetary_columns_cleaned_def entry_key_def

text \<open>
  Claim C7. When \<^verbatim>\<open>load_and_filter_trades\<close> returns a frame, the file was read as a
  table whose two time columns parsed, the start is the given start (parsed from
  day/month/year when it is a text), the end is the given end plus one day, and the rows
  of the result are exactly the parsed rows whose entry time t satisfies
  start \<le> t < end + 1 day, each with its monetary columns cleaned and its entry time
  unchanged; a row whose entry time is null is not kept. The rows of the result are in
  ascending order of entry time. The function does return a frame whenever the file is a
  table with both time columns and at least one row, all times parse and both dates
  resolve.
\<close>

theorem load_keeps_rows_of_date_range_sorted:
  "(load_and_filter_trades lib fs trade_file start_date end_date = Inr out \<longrightarrow>
     (\<exists>df rows1 rows2 start finish.
        fs trade_file = Some (Table df)
      \<and> parse_time_column lib ''Entry time'' (rows df) = Some rows1
      \<and> parse_time_column lib ''Exit time'' rows1 = Some rows2
      \<and> length rows2 = length (rows df)
      \<and> (\<forall>i<length (rows df).
            parse_time_cell lib ((rows df ! i) ''Entry time'') = Some ((rows2 ! i) ''Entry time''))
      \<and> resolve_start lib start_date = Some start
      \<and> resolve_end lib end_date = Some finish
      \<and> columns out = columns df
      \<and> mset (rows out)
           = image_mset (clean_row lib (columns df) rows2)
               (filter_mset (\<lambda>r. in_range start finish (r ''Entry time'')) (mset rows2))
      \<and> (\<forall>r. clean_row lib (columns df) rows2 r ''Entry time'' = r ''Entry time'')
      \<and> (\<forall>r\<in>set (rows out). \<exists>t. r ''Entry time'' = Time t \<and> entry_key r = t
                                    \<and> start \<le> t \<and> t < finish)
      \<and> sorted (map entry_key (rows out))))
   \<and> (fs trade_file = Some (Table df0)
        \<and> ''Entry time'' \<in> set (columns df0) \<and> ''Exit time'' \<in> set (columns df0)
        \<and> rows df0 \<noteq> []
        \<and> parse_time_column lib ''Entry time'' (rows df0) = Some rs1
        \<and> parse_time_column lib ''Exit time'' rs1 = Some rs2
        \<and> resolve_start lib start_date = Some a
        \<and> resolve_end lib end_date = Some b
      \<longrightarrow> (\<exists>res. load_and_filter_trades lib fs trade_file start_date end_date = Inr res))
   \<and> in_range a b (Time t) = (a \<le> t \<and> t < b)
   \<and> \<not> in_range a b Null
   \<and> resolve_start lib (DateTime d) = Some d
   \<and> resolve_end lib (DateTime d) = Some (d + day_ns)
   \<and> resolve_start lib (DateStr s) = strptime lib s
   \<and> resolve_end lib (DateStr s) = map_option (\<lambda>d. d + day_ns) (strptime lib s)"
proof -
  have x: "in_range a b (Time t) = (a \<le> t \<and> t < b)
   \<and> \<not> in_range a b Null
   \<and> resolve_start lib (DateTime d) = Some d
   \<and> resolve_end lib (DateTime d) = Some (d + day_ns)
   \<and> resolve_start lib (DateStr s) = strptime lib s
   \<and> resolve_end lib (DateStr s) = map_option (\<lambda>d. d + day_ns) (strptime lib s)"
    by (simp add: in_range_def resolve_start_def resolve_end_def split: option.splits)
  have y: "fs trade_file = Some (Table df0)
        \<and> ''Entry time'' \<in> set (columns df0) \<and> ''Exit time'' \<in> set (columns df0)
        \<and> rows df0 \<noteq> []
        \<and> parse_time_column lib ''Entry time'' (rows df0) = Some rs1
        \<and> parse_time_column lib ''Exit time'' rs1 = Some rs2
        \<and> resolve_start lib start_date = Some a
        \<and> resolve_end lib end_date = Some b
      \<longrightarrow> (\<exists>res. load_and_filter_trades lib fs trade_file start_date end_date = Inr res)"
    using load_result [of fs trade_file df0 lib rs1 rs2 start_date a end_date b] by blast
  have z: "load_and_filter_trades lib fs trade_file start_date end_date = Inr out \<longrightarrow>
     (\<exists>df rows1 rows2 start finish.
        fs trade_file = Some (Table df)
      \<and> parse_time_column lib ''Entry time'' (rows df) = Some rows1
      \<and> parse_time_column lib ''Exit time'' rows1 = Some rows2
      \<and> length rows2 = length (rows df)
      \<and> (\<forall>i<length (rows df).
            parse_time_cell lib ((rows df ! i) ''Entry time'') = Some ((rows2 ! i) ''Entry time''))
      \<and> resolve_start lib start_date = Some start
      \<and> resolve_end lib end_date = Some finish
      \<and> columns out = columns df
      \<and> mset (rows out)
           = image_mset (clean_row lib (columns df) rows2)
               (filter_mset (\<lambda>r. in_range start finish (r ''Entry time'')) (mset rows2))
      \<and> (\<forall>r. clean_row lib (columns df) rows2 r ''Entry time'' = r ''Entry time'')
      \<and> (\<forall>r\<in>set (rows out). \<exists>t. r ''Entry time'' = Time t \<and> entry_key r = t
                                    \<and> start \<le> t \<and> t < finish)
      \<and> sorted (map entry_key (rows out)))"
    using load_properties [of lib fs trade_file start_date end_date out] by (rule impI)
  show ?thesis
    by (rule conjI [OF z], rule conjI [OF y], rule x)
qed

theorem load_keeps_rows_of_date_range_sorted_witness:
  "(\<exists>out. load_and_filter_trades example_lib example_fs ''ES-trades.csv''
             (DateStr ''02/01/2024'') (DateStr ''02/01/2024'') = Inr out
       \<and> map (\<lambda>r. r ''Entry time'') (rows out)
           = [Time 1704187800000000000, Time 1704207600000000000]
       \<and> map (\<lambda>r. r ''Profit'') (rows out) = [Num (- 20), Num 1234]
       \<and> sorted (map entry_key (rows out)))
   \<and> (\<exists>out. load_and_filter_trades example_lib example_fs ''ES-trades.csv''
             (DateTime 1704153600000000000) (DateTime 1704153600000000000) = Inr out
       \<and> map (\<lambda>r. r ''Entry time'') (rows out)
           = [Time 1704187800000000000, Time 1704207600000000000]
       \<and> sorted (map entry_key (rows out)))"
proof -
  have a: "\<exists>out. load_and_filter_trades example_lib example_fs ''ES-trades.csv''
             (DateStr ''02/01/2024'') (DateStr ''02/01/2024'') = Inr out
       \<and> map (\<lambda>r. r ''Entry time'') (rows out)
           = [Time 1704187800000000000, Time 1704207600000000000]
       \<and> map (\<lambda>r. r ''Profit'') (rows out) = [Num (- 20), Num 1234]"
    by (simp add: example_defs loader_defs)
  have b: "\<exists>out. load_and_filter_trades example_lib example_fs ''ES-trades.csv''
             (DateTime 1704153600000000000) (DateTime 1704153600000000000) = Inr out
       \<and> map (\<lambda>r. r ''Entry time'') (rows out)
           = [Time 1704187800000000000, Time 1704207600000000000]"
    by (simp add: example_defs loader_defs)
  from a obtain out1 where a1: "load_and_filter_trades example_lib example_fs ''ES-trades.csv''
             (DateStr ''02/01/2024'') (DateStr ''02/01/2024'') = Inr out1"
    and a2: "map (\<lambda>r. r ''Entry time'') (rows out1)
           = [Time 1704187800000000000, Time 1704207600000000000]"
    and a3: "map (\<lambda>r. r ''Profit'') (rows out1) = [Num (- 20), Num 1234]"
    by (elim exE conjE)
  from b obtain out2 where b1: "load_and_filter_trades example_lib example_fs ''ES-trades.csv''
             (DateTime 1704153600000000000) (DateTime 1704153600000000000) = Inr out2"
    and b2: "map (\<lambda>r. r ''Entry time'') (rows out2)
           = [Time 1704187800000000000, Time 1704207600000000000]"
    by (elim exE conjE)
  have s1: "sorted (map entry_key (rows out1))"
    using load_keeps_rows_of_date_range_sorted
      [of example_lib example_fs "''ES-trades.csv''" "DateStr ''02/01/2024''"
          "DateStr ''02/01/2024''" out1, THEN conjunct1] a1
    by blast
  have s2: "sorted (map entry_key (rows out2))"
    using load_keeps_rows_of_date_range_sorted
      [of example_lib example_fs "''ES-trades.csv''" "DateTime 1704153600000000000"
          "DateTime 1704153600000000000" out2, THEN conjunct1] b1
    by blast
  show ?thesis
    using a1 a2 a3 s1 b1 b2 s2 by (intro conjI exI [of _ out1] exI [of _ out2])
qed

subsection \<open>Combining the instruments\<close>

lemma combine_step_failure:
  "process_instrument lib fs flt con sd ed name fls = Inl e \<Longrightarrow>
   combine_step lib fs sel flt con sd ed st (name, fls) = st"
  by (cases st) (simp add: combine_step_def)

lemma combine_step_unselected:
  "name \<notin> set sel \<Longrightarrow> combine_step lib fs sel flt con sd ed st (name, fls) = st"
  by (cases st) (simp add: combine_step_def)

lemma combine_loop_skip:
  assumes "process_instrument lib fs flt con sd ed name fls = Inl e"
  shows "foldl (combine_step lib fs sel flt con sd ed) st (pre @ (name, fls) # post)
     = foldl (combine_step lib fs sel flt con sd ed) st (pre @ post)"
  using combine_step_failure [OF assms] by simp

lemma combine_loop_all_fail:
  assumes "\<forall>(n, f)\<in>set instruments. n \<in> set sel \<longrightarrow>
             (\<exists>err. process_instrument lib fs flt con sd ed n f = Inl err)"
  shows "foldl (combine_step lib fs sel flt con sd ed) st instruments = st"
  using assms
proof (induction instruments arbitrary: st)
  case Nil
  show ?case by simp
next
  case (Cons item rest)
  obtain n f where item: "item = (n, f)" by (cases item)
  have "combine_step lib fs sel flt con sd ed st (n, f) = st"
  proof (cases "n \<in> set sel")
    case True
    then obtain err where "process_instrument lib fs flt con sd ed n f = Inl err"
      using Cons.prems item by auto
    then show ?thesis by (rule combine_step_failure)
  next
    case False
    then show ?thesis by (rule combine_step_unselected)
  qed
  moreover have "foldl (combine_step lib fs sel flt con sd ed) st rest = st"
    using Cons.prems by (intro Cons.IH) simp
  ultimately show ?case by (simp add: item)
qed

lemma process_all_fail:
  assumes "\<forall>(n, f)\<in>set instruments. n \<in> set (selected_list_of sel) \<longrightarrow>
             (\<exists>err. process_instrument lib fs flt con (date_text lib start_date)
                       (date_text lib end_date) n f = Inl err)"
  shows "load_and_process_trades lib fs instruments sel flt con start_date end_date
     = ([], empty_frame)"
  using combine_loop_all_fail [OF assms, of "([], [])"]
  by (simp add: load_and_process_trades_def Let_def)

lemma process_skip:
  assumes "process_instrument lib fs flt con (date_text lib start_date)
                       (date_text lib end_date) name fls = Inl e"
  shows "load_and_process_trades lib fs (pre @ (name, fls) # post) sel flt con start_date end_date
     = load_and_process_trades lib fs (pre @ post) sel flt con start_date end_date"
  unfolding load_and_process_trades_def Let_def
  by (simp only: combine_loop_skip [OF assms])

lemma process_none_selected:
  assumes "selected_list_of sel = []"
  shows "load_and_process_trades lib fs instruments sel flt con start_date end_date
     = ([], empty_frame)"
  by (rule process_all_fail) (simp add: assms)

lemma process_instrument_loader_failure:
  "map_of fls ''trades'' = Some path \<Longrightarrow>
   load_and_filter_trades lib fs path (DateStr sd) (DateStr ed) = Inl e \<Longrightarrow>
   process_instrument lib fs flt con sd ed name fls = Inl e"
  by (simp add: process_instrument_def)

lemma process_instrument_no_trades_key:
  "map_of fls ''trades'' = None \<Longrightarrow>
   process_instrument lib fs flt con sd ed name fls = Inl (KeyError ''trades'')"
  by (simp add: process_instrument_def)

text \<open>
  Claim C5. The combiner returns a result for every input. An instrument whose pipeline
  raises (a missing \<^verbatim>\<open>'trades'\<close> entry, any error of the loader, an error of the
  multiplier) leaves the loop's state as it was: the result is the result for the
  instruments without it. When no instrument is selected, or every selected instrument
  fails, the result is the empty dictionary and the empty frame.
\<close>

theorem combiner_skips_failed_instruments:
  "(process_instrument lib fs flt con (date_text lib start_date) (date_text lib end_date)
        name fls = Inl e
      \<longrightarrow> load_and_process_trades lib fs (pre @ (name, fls) # post) sel flt con
             start_date end_date
           = load_and_process_trades lib fs (pre @ post) sel flt con start_date end_date)
   \<and> (selected_list_of sel = []
      \<longrightarrow> load_and_process_trades lib fs instruments sel flt con start_date end_date
           = ([], empty_frame))
   \<and> ((\<forall>(n, f)\<in>set instruments. n \<in> set (selected_list_of sel) \<longrightarrow>
           (\<exists>err. process_instrument lib fs flt con (date_text lib start_date)
                     (date_text lib end_date) n f = Inl err))
      \<longrightarrow> load_and_process_trades lib fs instruments sel flt con start_date end_date
           = ([], empty_frame))
   \<and> (map_of fls ''trades'' = Some path
        \<and> load_and_filter_trades lib fs path (DateStr sd) (DateStr ed) = Inl e
      \<longrightarrow> process_instrument lib fs flt con sd ed name fls = Inl e)
   \<and> (map_of fls ''trades'' = None
      \<longrightarrow> process_instrument lib fs flt con sd ed name fls = Inl (KeyError ''trades''))"
proof (intro conjI impI)
  assume "process_instrument lib fs flt con (date_text lib start_date) (date_text lib end_date)
        name fls = Inl e"
  then show "load_and_process_trades lib fs (pre @ (name, fls) # post) sel flt con
             start_date end_date
           = load_and_process_trades lib fs (pre @ post) sel flt con start_date end_date"
    by (rule process_skip)
next
  assume "selected_list_of sel = []"
  then show "load_and_process_trades lib fs instruments sel flt con start_date end_date
           = ([], empty_frame)"
    by (rule process_none_selected)
next
  assume "\<forall>(n, f)\<in>set instruments. n \<in> set (selected_list_of sel) \<longrightarrow>
           (\<exists>err. process_instrument lib fs flt con (date_text lib start_date)
                     (date_text lib end_date) n f = Inl err)"
  then show "load_and_process_trades lib fs instruments sel flt con start_date end_date
           = ([], empty_frame)"
    by (rule process_all_fail)
next
  assume "map_of fls ''trades'' = Some path
        \<and> load_and_filter_trades lib fs path (DateStr sd) (DateStr ed) = Inl e"
  then show "process_instrument lib fs flt con sd ed name fls = Inl e"
    using process_instrument_loader_failure by (elim conjE)
next
  assume "map_of fls ''trades'' = None"
  then show "process_instrument lib fs flt con sd ed name fls = Inl (KeyError ''trades'')"
    by (rule process_instrument_no_trades_key)
qed

lemmas combiner_defs = load_and_process_trades_def combine_step_def process_instrument_def
  filter_trades_by_direction_def apply_contract_multiplier_def monetary_columns_def
  scale_cell_def set_column_def dict_set_def concat_frames_def unique_def
  selected_list_of_def date_text_def empty_frame_def

theorem combiner_skips_failed_instruments_witness:
  "load_and_process_trades example_lib example_fs
      [(''NQ'', [(''trades'', ''NQ-trades.csv'')]),
       (''ES'', [(''summary'', ''ES-summary.csv''), (''trades'', ''ES-trades.csv'')])]
      (SelectedList [''ES'', ''NQ''])
      (\<lambda>n. if n = ''ES'' then Some ''Long Only'' else None)
      (\<lambda>n. if n = ''ES'' then Some 2 else None)
      (DateTime 1704153600000000000) (DateStr ''03/01/2024'')
     = load_and_process_trades example_lib example_fs
      [(''ES'', [(''summary'', ''ES-summary.csv''), (''trades'', ''ES-trades.csv'')])]
      (SelectedList [''ES'', ''NQ''])
      (\<lambda>n. if n = ''ES'' then Some ''Long Only'' else None)
      (\<lambda>n. if n = ''ES'' then Some 2 else None)
      (DateTime 1704153600000000000) (DateStr ''03/01/2024'')
   \<and> map fst (fst (load_and_process_trades example_lib example_fs
      [(''NQ'', [(''trades'', ''NQ-trades.csv'')]),
       (''ES'', [(''summary'', ''ES-summary.csv''), (''trades'', ''ES-trades.csv'')])]
      (SelectedList [''ES'', ''NQ''])
      (\<lambda>n. if n = ''ES'' then Some ''Long Only'' else None)
      (\<lambda>n. if n = ''ES'' then Some 2 else None)
      (DateTime 1704153600000000000) (DateStr ''03/01/2024''))) = [''ES'']
   \<and> map (\<lambda>r. r ''Profit'') (rows (snd (load_and_process_trades example_lib example_fs
      [(''NQ'', [(''trades'', ''NQ-trades.csv'')]),
       (''ES'', [(''summary'', ''ES-summary.csv''), (''trades'', ''ES-trades.csv'')])]
      (SelectedList [''ES'', ''NQ''])
      (\<lambda>n. if n = ''ES'' then Some ''Long Only'' else None)
      (\<lambda>n. if n = ''ES'' then Some 2 else None)
      (DateTime 1704153600000000000) (DateStr ''03/01/2024'')))) = [Num 2468, Num 111]
   \<and> load_and_process_trades example_lib example_fs
      [(''NQ'', [(''trades'', ''NQ-trades.csv'')]), (''CL'', [(''trades'', ''CL-trades.csv'')])]
      (SelectedList [''CL'', ''NQ''])
      (\<lambda>n. if n = ''ES'' then Some ''Long Only'' else None)
      (\<lambda>n. if n = ''ES'' then Some 2 else None)
      (DateTime 1704153600000000000) (DateStr ''03/01/2024'')
     = ([], empty_frame)"
proof -
  let ?flt = "\<lambda>n. if n = ''ES'' then Some ''Long Only'' else None"
  let ?con = "\<lambda>n. if n = ''ES'' then Some (2::int) else None"
  let ?sd = "DateTime 1704153600000000000"
  let ?ed = "DateStr ''03/01/2024''"
  let ?es = "(''ES'', [(''summary'', ''ES-summary.csv''), (''trades'', ''ES-trades.csv'')])"
  have nq: "process_instrument example_lib example_fs ?flt ?con
      (date_text example_lib ?sd) (date_text example_lib ?ed)
      ''NQ'' [(''trades'', ''NQ-trades.csv'')] = Inl (FileNotFoundError ''NQ-trades.csv'')"
    by (simp add: process_instrument_def load_and_filter_trades_def example_fs_def)
  have cl: "process_instrument example_lib example_fs ?flt ?con
      (date_text example_lib ?sd) (date_text example_lib ?ed)
      ''CL'' [(''trades'', ''CL-trades.csv'')] = Inl (EmptyCsv ''CL-trades.csv'')"
    by (simp add: process_instrument_def load_and_filter_trades_def example_fs_def)
  have skip: "load_and_process_trades example_lib example_fs
      [(''NQ'', [(''trades'', ''NQ-trades.csv'')]), ?es]
      (SelectedList [''ES'', ''NQ'']) ?flt ?con ?sd ?ed
     = load_and_process_trades example_lib example_fs [?es]
      (SelectedList [''ES'', ''NQ'']) ?flt ?con ?sd ?ed"
    using combiner_skips_failed_instruments
      [of example_lib example_fs ?flt ?con ?sd ?ed "''NQ''" "[(''trades'', ''NQ-trades.csv'')]"
          "FileNotFoundError ''NQ-trades.csv''" "[]" "[?es]" "SelectedList [''ES'', ''NQ'']",
       THEN conjunct1] nq
    by simp
  have keys: "map fst (fst (load_and_process_trades example_lib example_fs [?es]
      (SelectedList [''ES'', ''NQ'']) ?flt ?con ?sd ?ed)) = [''ES'']"
    by (simp add: combiner_defs example_defs loader_defs)
  have vals: "map (\<lambda>r. r ''Profit'') (rows (snd (load_and_process_trades example_lib example_fs
      [?es] (SelectedList [''ES'', ''NQ'']) ?flt ?con ?sd ?ed))) = [Num 2468, Num 111]"
    by (simp add: combiner_defs example_defs loader_defs)
  have none: "load_and_process_trades example_lib example_fs
      [(''NQ'', [(''trades'', ''NQ-trades.csv'')]), (''CL'', [(''trades'', ''CL-trades.csv'')])]
      (SelectedList [''CL'', ''NQ'']) ?flt ?con ?sd ?ed = ([], empty_frame)"
    using combiner_skips_failed_instruments
      [of example_lib example_fs ?flt ?con ?sd ?ed "''NQ''" "[(''trades'', ''NQ-trades.csv'')]"
          "FileNotFoundError ''NQ-trades.csv''" "[]" "[]" "SelectedList [''CL'', ''NQ'']"
          "[(''NQ'', [(''trades'', ''NQ-trades.csv'')]), (''CL'', [(''trades'', ''CL-trades.csv'')])]",
       THEN conjunct2, THEN conjunct2, THEN conjunct1] nq cl
    by simp
  show ?thesis
    using skip keys vals none by (simp only: simp_thms)
qed

end
